theory Spec2Isabelle
  imports Main "HOL-Library.Word"
begin

unbundle bit_operations_syntax

section \<open>Library functions the handlers call\<close>

text \<open>
  Go strings are byte sequences, as \<open>string\<close> is here. \<open>md5.Sum\<close> is not modelled:
  every definition that hashes takes the digest function as an argument (a handler as
  the field \<open>md5_Sum\<close> of its services), so each theorem holds for every digest
  function, collisions included.
\<close>

type_synonym byte = "8 word"
type_synonym digest = "string \<Rightarrow> byte list"
type_synonym user = string
type_synonym dbname = string
type_synonym tablename = string
type_synonym colname = string

subsection \<open>encoding/hex\<close>

definition hextable :: string where
  "hextable = ''0123456789abcdef''"

definition hex_byte :: "byte \<Rightarrow> string" where
  "hex_byte v = [hextable ! unat (drop_bit 4 v), hextable ! unat (v AND 0x0f)]"

definition EncodeToString :: "byte list \<Rightarrow> string" where
  "EncodeToString src = concat (map hex_byte src)"

subsection \<open>strconv.Itoa and the verb \<open>%d\<close>\<close>

definition digit :: "nat \<Rightarrow> char" where
  "digit d = ''0123456789'' ! d"

function formatBits :: "nat \<Rightarrow> string" where
  "formatBits u = (if u < 10 then [digit u] else formatBits (u div 10) @ [digit (u mod 10)])"
  by pat_completeness auto
termination
  by (relation "measure id") auto

declare formatBits.simps [simp del]

definition Itoa :: "int \<Rightarrow> string" where
  "Itoa i = (if i < 0 then CHR ''-'' # formatBits (nat (- i)) else formatBits (nat i))"

text \<open>The reading of a digit string, used to state that \<open>Itoa\<close> loses nothing.\<close>

definition digit_val :: "char \<Rightarrow> nat" where
  "digit_val c = of_char c - 48"

definition atoi_nat :: "string \<Rightarrow> nat" where
  "atoi_nat s = foldl (\<lambda>a c. 10 * a + digit_val c) 0 s"

subsection \<open>fmt.Sprintf with a format that has no verb\<close>

text \<open>
  \<open>fmt.Sprintf(format, a, b)\<close> with two string operands and no verb in the format
  returns the format followed by the operands it did not use.
\<close>

definition Sprintf_EXTRA :: "string \<Rightarrow> string \<Rightarrow> string \<Rightarrow> string" where
  "Sprintf_EXTRA format a b = format @ ''%!(EXTRA string='' @ a @ '', string='' @ b @ '')''"

subsection \<open>strconv.FormatFloat with the format \<open>f\<close> and four decimals\<close>

text \<open>
  A \<open>float64\<close> is its 64 bits: the sign, 11 bits of exponent and 52 bits of mantissa.
  With the exponent bits all set it is an infinity (mantissa 0) or a NaN; otherwise its
  magnitude is \<open>m * 2 ^ (e - 1075)\<close>, where \<open>m\<close> is the mantissa with the implicit bit
  and \<open>e\<close> the exponent, or the mantissa alone and \<open>e = 1\<close> when the exponent bits are
  all clear. \<open>strconv.FormatFloat(val, 'f', 4, 64)\<close> writes the sign of a negative value,
  then the decimal expansion of the magnitude rounded to four decimals, to the nearest
  and to the even digit when it is exactly half way; \<open>float_scaled\<close> is the rounded
  magnitude in units of \<open>0.0001\<close>.
\<close>

definition float_sign :: "64 word \<Rightarrow> bool" where
  "float_sign b = bit b 63"

definition float_exp :: "64 word \<Rightarrow> nat" where
  "float_exp b = unat (drop_bit 52 b AND 0x7FF)"

definition float_mant :: "64 word \<Rightarrow> nat" where
  "float_mant b = unat (b AND 0xFFFFFFFFFFFFF)"

definition round_even :: "nat \<Rightarrow> nat \<Rightarrow> nat" where
  "round_even num den =
     (let q = num div den; r = num mod den
      in if den < 2 * r \<or> (2 * r = den \<and> odd q) then q + 1 else q)"

definition float_scaled :: "64 word \<Rightarrow> nat" where
  "float_scaled b =
     (let m = (if float_exp b = 0 then float_mant b else float_mant b + 2 ^ 52);
          e = (if float_exp b = 0 then 1 else float_exp b)
      in if 1075 \<le> e then m * 2 ^ (e - 1075) * 10000
         else round_even (m * 10000) (2 ^ (1075 - e)))"

definition pad4 :: "nat \<Rightarrow> string" where
  "pad4 n = [digit (n div 1000 mod 10), digit (n div 100 mod 10), digit (n div 10 mod 10),
             digit (n mod 10)]"

definition FormatFloat :: "64 word \<Rightarrow> string" where
  "FormatFloat b =
     (if float_exp b = 2047
      then (if float_mant b \<noteq> 0 then ''NaN'' else if float_sign b then ''-Inf'' else ''+Inf'')
      else (if float_sign b then ''-'' else '''')
             @ formatBits (float_scaled b div 10000) @ ''.'' @ pad4 (float_scaled b mod 10000))"

text \<open>
  A string with exactly four decimals: an optional minus sign, one or more digits, a
  point, four digits.
\<close>

definition is_digit :: "char \<Rightarrow> bool" where
  "is_digit c = (c \<in> set ''0123456789'')"

definition fixed4 :: "string \<Rightarrow> bool" where
  "fixed4 s =
     (let body = (if s \<noteq> [] \<and> hd s = CHR ''-'' then tl s else s); n = length body
      in 6 \<le> n \<and> list_all is_digit (take (n - 5) body) \<and> body ! (n - 5) = CHR ''.''
         \<and> list_all is_digit (drop (n - 4) body))"

section \<open>Data the handlers exchange\<close>

subsection \<open>HTTP\<close>

definition StatusBadRequest :: nat where "StatusBadRequest = 400"
definition StatusUnauthorized :: nat where "StatusUnauthorized = 401"
definition StatusInternalServerError :: nat where "StatusInternalServerError = 500"

text \<open>
  What a handler reads of the request: the user name of the session (\<open>None\<close> when
  \<open>session.Get\<close> returns nil), what \<open>com.GetODT\<close>, \<open>com.GetODTV\<close> or \<open>com.GetODV\<close>
  parse from the URL (an error, or owner, database, table and version; a handler takes
  the parts it asks for), and the form values (\<open>r.FormValue\<close> is empty for a field that
  is absent).
\<close>

record request =
  session_UserName :: "user option"
  url_ODTV :: "string + (user \<times> dbname \<times> tablename \<times> int)"
  FormValue :: "string \<Rightarrow> string"

definition loggedInUser_of :: "request \<Rightarrow> user" where
  "loggedInUser_of r = (case session_UserName r of None \<Rightarrow> '''' | Some u \<Rightarrow> u)"

subsection \<open>The result set of a read (\<open>com.DataValue\<close>, \<open>com.SQLiteRecordSet\<close>)\<close>

datatype ValType = Binary | Null | Text | Integer | Float

record DataValue =
  Name :: colname
  Type :: ValType
  Value :: string

record SQLiteRecordSet =
  ColNames :: "colname list"
  ColCount :: int
  Records :: "DataValue list list"
  RowCount :: int
  TotalRows :: int
  Tablename :: tablename

record WhereClause =
  wc_Column :: colname
  wc_Type :: string
  wc_Value :: string

record MetaInfo =
  LoggedInUser :: user
  Username :: user
  Database :: dbname
  Server :: string
  Title :: string

record SQLiteDBinfo =
  MaxRows :: int
  MinioBkt :: string
  MinioId :: string
  Tables :: "tablename list"

text \<open>
  The page data of \<open>databasePage\<close> (\<open>Meta\<close>, \<open>DB\<close>, \<open>Data\<close>); \<open>visualisePage\<close> adds the
  list of column names.
\<close>

record pageData =
  Meta :: MetaInfo
  DB :: SQLiteDBinfo
  Data :: SQLiteRecordSet
  PageColNames :: "colname list"

subsection \<open>An SQLite database file, opened\<close>

text \<open>
  What a statement reports for a field of the row it stands on: the type of the field
  (\<open>ColumnType\<close>) and what the scan for that type returns. \<open>ScanInt\<close> and \<open>ScanDouble\<close>
  return the value, \<open>isNull\<close> and whether \<open>err\<close> is not nil; \<open>ScanText\<close> and \<open>ScanBlob\<close>
  return the value and \<open>isNull\<close>. A float is kept as the 64 bits of the \<open>float64\<close>.
\<close>

datatype sqlite_value =
    sqlite_Integer int bool bool
  | sqlite_Float "64 word" bool bool
  | sqlite_Text string bool
  | sqlite_Blob "byte list" bool
  | sqlite_Null

text \<open>
  A statement that was prepared and ran to its end has column names and rows, each row
  with one field per column. \<open>PrepareFails\<close> and \<open>SelectFails\<close> are the errors of
  \<open>Prepare\<close> and of \<open>Select\<close>.
\<close>

record sqlite_stmt =
  stmt_cols :: "colname list"
  stmt_rows :: "sqlite_value list list"

datatype select_result = PrepareFails | SelectFails | Rows sqlite_stmt

text \<open>
  The handlers build the text of a statement by concatenation and hand it to SQLite. An
  open file is what SQLite answers for it: to \<open>Tables\<close>, to \<open>Prepare\<close> with a text and
  the values bound to its parameters followed by \<open>Select\<close>, and to \<open>OneValue\<close> with a
  text. What a text selects is for SQLite to say; nothing here reads the text.
\<close>

record sqlite_conn =
  conn_Tables :: "string + tablename list"
  conn_Select :: "string \<Rightarrow> int list \<Rightarrow> select_result"
  conn_OneValue :: "string \<Rightarrow> int option"

subsection \<open>Cache payloads, responses and what a handler did\<close>

datatype cached =
    CachedPage pageData
  | CachedBytes string
  | CachedMinioInfo string string

text \<open>
  \<open>GetCachedData(key, &v)\<close> answers \<open>ok\<close> only when the entry decodes into \<open>v\<close>; an entry
  of another shape is a miss (its error is logged only).
\<close>

definition cached_page :: "cached option \<Rightarrow> pageData option" where
  "cached_page c = (case c of Some (CachedPage p) \<Rightarrow> Some p | _ \<Rightarrow> None)"

definition cached_bytes :: "cached option \<Rightarrow> string option" where
  "cached_bytes c = (case c of Some (CachedBytes b) \<Rightarrow> Some b | _ \<Rightarrow> None)"

definition cached_minioInfo :: "cached option \<Rightarrow> (string \<times> string) option" where
  "cached_minioInfo c = (case c of Some (CachedMinioInfo b i) \<Rightarrow> Some (b, i) | _ \<Rightarrow> None)"

datatype response =
    ErrorPage nat string
  | Body string
  | RenderPage string pageData
  | CSVFile string "string list list"
  | NoResponse

text \<open>
  A read of rows: a call of one of the shared read functions with its arguments, or a
  statement the handler prepares itself, with its text and the values bound to it.
\<close>

datatype read_call =
    Call_ReadSQLiteDB tablename int
  | Call_ReadSQLiteDBCols tablename bool bool int "WhereClause list" colname colname
  | Call_Select string "int list"

text \<open>
  The outcome of a request: the response (\<open>NoResponse\<close> when the handler returns having
  written nothing, so the client gets an empty body with status 200), the reads of rows
  in order, and the entries handed to \<open>CacheData\<close>.
\<close>

record outcome =
  oc_response :: response
  oc_reads :: "read_call list"
  oc_cached :: "(string \<times> cached) list"

definition reply :: "response \<Rightarrow> outcome" where
  "reply resp = \<lparr>oc_response = resp, oc_reads = [], oc_cached = []\<rparr>"

definition outcome_of :: "response \<Rightarrow> read_call list \<Rightarrow> (string \<times> cached) list \<Rightarrow> outcome" where
  "outcome_of resp calls entries = \<lparr>oc_response = resp, oc_reads = calls, oc_cached = entries\<rparr>"

subsection \<open>Functions of other packages and of files that are not part of the sources\<close>

text \<open>
  Each is a field of \<open>services\<close>; a handler is a function of them. An error return is
  \<open>Inl\<close> with the error's text, or \<open>None\<close> where the text is only logged.
  \<^item> \<open>md5_Sum\<close>, \<open>json_Marshal\<close>, \<open>json_MarshalIndent\<close>: the standard library.
  \<^item> \<open>ValidatePGTable\<close> (true when it returns no error), \<open>CheckUserDBAccess\<close> (the database
    information it fills in), \<open>MinioID\<close> (bucket and object id), \<open>PrefUserMaxRows\<close>,
    \<open>GetCachedData\<close> (the entry under a key), \<open>OpenMinioObject\<close>, \<open>ReadSQLiteDB\<close>,
    \<open>ReadSQLiteDBCols\<close>, \<open>GetSQLiteRowCount\<close>, \<open>WebServer\<close>: package \<open>com\<close>, or functions of
    the same name without the capital in the first source file.
  \<^item> \<open>minio_GetObject\<close> (the bytes of the object; \<open>None\<close> when \<open>GetObject\<close> or the copy into
    the temporary file fails), \<open>TempFile_ok\<close> (\<open>ioutil.TempFile\<close> succeeds), \<open>sqlite_Open\<close>
    (\<open>sqlite.Open\<close> on the temporary file): the steps \<open>tableViewHandler\<close> takes itself.
\<close>

record services =
  md5_Sum :: digest
  json_Marshal :: "SQLiteRecordSet \<Rightarrow> string option"
  json_MarshalIndent :: "SQLiteRecordSet \<Rightarrow> string option"
  ValidatePGTable :: "string \<Rightarrow> bool"
  CheckUserDBAccess :: "user \<Rightarrow> user \<Rightarrow> dbname \<Rightarrow> string + SQLiteDBinfo"
  MinioID :: "user \<Rightarrow> dbname \<Rightarrow> int \<Rightarrow> user \<Rightarrow> string + (string \<times> string)"
  PrefUserMaxRows :: "user \<Rightarrow> int"
  GetCachedData :: "string \<Rightarrow> cached option"
  OpenMinioObject :: "string \<Rightarrow> string \<Rightarrow> string + sqlite_conn"
  minio_GetObject :: "string \<Rightarrow> string \<Rightarrow> byte list option"
  TempFile_ok :: bool
  sqlite_Open :: "byte list \<Rightarrow> sqlite_conn option"
  ReadSQLiteDB :: "sqlite_conn \<Rightarrow> tablename \<Rightarrow> int \<Rightarrow> string + SQLiteRecordSet"
  ReadSQLiteDBCols ::
    "sqlite_conn \<Rightarrow> tablename \<Rightarrow> bool \<Rightarrow> bool \<Rightarrow> int \<Rightarrow> WhereClause list \<Rightarrow> colname \<Rightarrow> colname
       \<Rightarrow> string + SQLiteRecordSet"
  GetSQLiteRowCount :: "sqlite_conn \<Rightarrow> tablename \<Rightarrow> string + int"
  WebServer :: string

section \<open>Row limits and cache keys\<close>

text \<open>
  \<open>maxRows\<close> is the block "Determine the number of rows to display" of
  \<open>databasePage\<close> and \<open>tableViewHandler\<close>; \<open>pref\<close> is \<open>com.PrefUserMaxRows\<close>.
\<close>

definition maxRows :: "(user \<Rightarrow> int) \<Rightarrow> user \<Rightarrow> int" where
  "maxRows pref loggedInUser = (if loggedInUser \<noteq> '''' then pref loggedInUser else 10)"

text \<open>\<open>databasePage\<close>: the key before and after the row limit is appended.\<close>

definition databasePage_cacheKey :: "digest \<Rightarrow> user \<Rightarrow> user \<Rightarrow> dbname \<Rightarrow> tablename \<Rightarrow> string" where
  "databasePage_cacheKey md5 loggedInUser userName dbName dbTable =
     (if loggedInUser \<noteq> userName
      then ''dwndb-pub-'' @ EncodeToString (md5 (userName @ ''/'' @ dbName @ ''/'' @ dbTable))
      else ''dwndb-'' @ EncodeToString
             (md5 (loggedInUser @ ''-'' @ userName @ ''/'' @ dbName @ ''/'' @ dbTable)))"

definition databasePage_pageCacheKey ::
  "digest \<Rightarrow> (user \<Rightarrow> int) \<Rightarrow> user \<Rightarrow> user \<Rightarrow> dbname \<Rightarrow> tablename \<Rightarrow> string" where
  "databasePage_pageCacheKey md5 pref loggedInUser userName dbName dbTable =
     databasePage_cacheKey md5 loggedInUser userName dbName dbTable
       @ ''/'' @ Itoa (maxRows pref loggedInUser)"

text \<open>\<open>visData\<close>: one key, with the projection and the filter appended to the table.\<close>

definition visData_pageCacheKey ::
  "digest \<Rightarrow> user \<Rightarrow> user \<Rightarrow> dbname \<Rightarrow> tablename \<Rightarrow> colname \<Rightarrow> colname \<Rightarrow> colname
     \<Rightarrow> string \<Rightarrow> string \<Rightarrow> string" where
  "visData_pageCacheKey md5 loggedInUser userName dbName requestedTable xCol yCol wCol wType wVal =
     (if loggedInUser \<noteq> userName
      then ''visdat-pub-'' @ EncodeToString
             (md5 (userName @ ''/'' @ dbName @ ''/'' @ requestedTable @ xCol @ yCol @ wCol
                     @ wType @ wVal))
      else ''visdat-'' @ EncodeToString
             (md5 (loggedInUser @ ''-'' @ userName @ ''/'' @ dbName @ ''/'' @ requestedTable
                     @ xCol @ yCol @ wCol @ wType @ wVal)))"

text \<open>
  \<open>tableViewHandler\<close>: the two query texts (a newline and its tabs are \<open>nlt\<close>), the key
  of the rendered JSON before and after the row limit is appended, and the key of the
  resolved location.
\<close>

definition nlt :: "nat \<Rightarrow> string" where
  "nlt n = CHR 0x0A # replicate n (CHR 0x09)"

definition dbQuery_public :: string where
  "dbQuery_public =
     nlt 3 @ ''WITH requested_db AS ('' @
     nlt 4 @ ''SELECT idnum, minio_bucket'' @
     nlt 4 @ ''FROM sqlite_databases'' @
     nlt 4 @ ''WHERE username = $1'' @
     nlt 5 @ ''AND dbname = $2'' @
     nlt 3 @ '')'' @
     nlt 3 @ ''SELECT db.minio_bucket, ver.minioid'' @
     nlt 3 @ ''FROM database_versions AS ver, requested_db AS db'' @
     nlt 3 @ ''WHERE ver.db = db.idnum'' @
     nlt 4 @ ''AND ver.public = true'' @
     nlt 3 @ ''ORDER BY version DESC'' @
     nlt 3 @ ''LIMIT 1''"

definition dbQuery_owner :: string where
  "dbQuery_owner =
     nlt 3 @ ''WITH requested_db AS ('' @
     nlt 4 @ ''SELECT idnum, minio_bucket'' @
     nlt 4 @ ''FROM sqlite_databases'' @
     nlt 4 @ ''WHERE username = $1'' @
     nlt 5 @ ''AND dbname = $2'' @
     nlt 3 @ '')'' @
     nlt 3 @ ''SELECT db.minio_bucket, ver.minioid'' @
     nlt 3 @ ''FROM database_versions AS ver, requested_db AS db'' @
     nlt 3 @ ''WHERE ver.db = db.idnum'' @
     nlt 3 @ ''ORDER BY version DESC'' @
     nlt 3 @ ''LIMIT 1''"

definition tableView_cacheKey :: "digest \<Rightarrow> user \<Rightarrow> user \<Rightarrow> dbname \<Rightarrow> tablename \<Rightarrow> string" where
  "tableView_cacheKey md5 loggedInUser dbOwner dbName requestedTable =
     (if loggedInUser \<noteq> dbOwner
      then ''tbl-pub-'' @ EncodeToString (md5 (dbOwner @ ''/'' @ dbName @ ''/'' @ requestedTable))
      else ''tbl-'' @ EncodeToString
             (md5 (loggedInUser @ ''-'' @ dbOwner @ ''/'' @ dbName @ ''/'' @ requestedTable)))"

definition tableView_jsonCacheKey ::
  "digest \<Rightarrow> (user \<Rightarrow> int) \<Rightarrow> user \<Rightarrow> user \<Rightarrow> dbname \<Rightarrow> tablename \<Rightarrow> string" where
  "tableView_jsonCacheKey md5 pref loggedInUser dbOwner dbName requestedTable =
     tableView_cacheKey md5 loggedInUser dbOwner dbName requestedTable
       @ ''/'' @ Itoa (maxRows pref loggedInUser)"

definition tableView_queryCacheKey :: "digest \<Rightarrow> user \<Rightarrow> user \<Rightarrow> dbname \<Rightarrow> string" where
  "tableView_queryCacheKey md5 loggedInUser dbOwner dbName =
     (if loggedInUser \<noteq> dbOwner
      then ''pub/'' @ EncodeToString (md5 (Sprintf_EXTRA dbQuery_public dbOwner dbName))
      else loggedInUser @ ''/'' @ EncodeToString (md5 (Sprintf_EXTRA dbQuery_owner dbOwner dbName)))"

section \<open>The handlers\<close>

subsection \<open>Decoding a field\<close>

definition Sprintf_d :: "int \<Rightarrow> string" where
  "Sprintf_d val = Itoa val"

text \<open>
  \<open>databasePage\<close>, the body of the loop over the fields of a row: the switch on the type
  of the field, then the test of \<open>isNull\<close>. A branch of the switch appends its value when
  the scan returned no error and no null; a failed \<open>ScanInt\<close> or \<open>ScanDouble\<close> leaves the
  switch. The null marker is appended whenever \<open>isNull\<close> is set, by the branch for the
  type \<open>Null\<close> or by a scan. The result is what the field appends to the row.
\<close>

definition databasePage_cell :: "colname \<Rightarrow> sqlite_value \<Rightarrow> DataValue list" where
  "databasePage_cell colName cell =
     (let marker = \<lparr>Name = colName, Type = Null, Value = ''<i>NULL</i>''\<rparr> in
      case cell of
        sqlite_Integer val isNull failed \<Rightarrow>
          (if \<not> failed \<and> \<not> isNull
           then [\<lparr>Name = colName, Type = Integer, Value = Sprintf_d val\<rparr>] else [])
          @ (if isNull then [marker] else [])
      | sqlite_Float val isNull failed \<Rightarrow>
          (if \<not> failed \<and> \<not> isNull
           then [\<lparr>Name = colName, Type = Float, Value = FormatFloat val\<rparr>] else [])
          @ (if isNull then [marker] else [])
      | sqlite_Text val isNull \<Rightarrow>
          (if \<not> isNull then [\<lparr>Name = colName, Type = Text, Value = val\<rparr>] else [])
          @ (if isNull then [marker] else [])
      | sqlite_Blob val isNull \<Rightarrow>
          (if \<not> isNull
           then [\<lparr>Name = colName, Type = Binary, Value = ''<i>BINARY DATA</i>''\<rparr>] else [])
          @ (if isNull then [marker] else [])
      | sqlite_Null \<Rightarrow> [marker])"

definition databasePage_row :: "colname list \<Rightarrow> sqlite_value list \<Rightarrow> DataValue list" where
  "databasePage_row colNames cells =
     concat (map (\<lambda>i. databasePage_cell (colNames ! i) (cells ! i)) [0..<length cells])"

subsection \<open>encoding/base64, the standard encoding with padding\<close>

definition encodeStd :: string where
  "encodeStd = ''ABCDEFGHIJKLMNOPQRSTUVWXYZabcdefghijklmnopqrstuvwxyz0123456789+/''"

definition sextet :: "32 word \<Rightarrow> nat \<Rightarrow> char" where
  "sextet val n = encodeStd ! unat (drop_bit n val AND 0x3F)"

fun base64_EncodeToString :: "byte list \<Rightarrow> string" where
  "base64_EncodeToString (a # b # c # rest) =
     (let val = push_bit 16 (ucast a) OR push_bit 8 (ucast b) OR ucast c
      in [sextet val 18, sextet val 12, sextet val 6, sextet val 0] @ base64_EncodeToString rest)"
| "base64_EncodeToString [a, b] =
     (let val = push_bit 16 (ucast a) OR push_bit 8 (ucast b)
      in [sextet val 18, sextet val 12, sextet val 6, CHR ''=''])"
| "base64_EncodeToString [a] =
     (let val = push_bit 16 (ucast a)
      in [sextet val 18, sextet val 12, CHR ''='', CHR ''=''])"
| "base64_EncodeToString [] = []"

text \<open>
  \<open>downloadCSVHandler\<close>, the body of the loop over the fields of a row, which has the same
  switch and the same test of \<open>isNull\<close>.
\<close>

definition downloadCSV_cell :: "sqlite_value \<Rightarrow> string list" where
  "downloadCSV_cell cell =
     (case cell of
        sqlite_Integer val isNull failed \<Rightarrow>
          (if \<not> failed \<and> \<not> isNull then [Sprintf_d val] else [])
          @ (if isNull then [''NULL''] else [])
      | sqlite_Float val isNull failed \<Rightarrow>
          (if \<not> failed \<and> \<not> isNull then [FormatFloat val] else [])
          @ (if isNull then [''NULL''] else [])
      | sqlite_Text val isNull \<Rightarrow>
          (if \<not> isNull then [val] else []) @ (if isNull then [''NULL''] else [])
      | sqlite_Blob val isNull \<Rightarrow>
          (if \<not> isNull then [base64_EncodeToString val] else [])
          @ (if isNull then [''NULL''] else [])
      | sqlite_Null \<Rightarrow> [''NULL''])"


subsection \<open>\<open>databasePage\<close>\<close>

text \<open>
  The handler pastes the name of the table into the text of its two statements; the row
  limit is the value bound to the parameter of the first.
\<close>

definition databasePage :: "services \<Rightarrow> request \<Rightarrow> user \<Rightarrow> dbname \<Rightarrow> tablename \<Rightarrow> outcome" where
  "databasePage svc r userName dbName dbTable =
     (let loggedInUser = loggedInUser_of r in
      case CheckUserDBAccess svc loggedInUser userName dbName of
        Inl err \<Rightarrow> reply (ErrorPage StatusBadRequest err)
      | Inr dbInfo \<Rightarrow>
      let limit = maxRows (PrefUserMaxRows svc) loggedInUser;
          pageCacheKey = databasePage_pageCacheKey (md5_Sum svc) (PrefUserMaxRows svc)
                           loggedInUser userName dbName dbTable
      in
      case cached_page (GetCachedData svc pageCacheKey) of
        Some fromCache \<Rightarrow> reply (RenderPage ''databasePage'' fromCache)
      | None \<Rightarrow>
      case OpenMinioObject svc (MinioBkt dbInfo) (MinioId dbInfo) of
        Inl err \<Rightarrow> reply (ErrorPage StatusInternalServerError err)
      | Inr db \<Rightarrow>
      case conn_Tables db of
        Inl err \<Rightarrow> reply (ErrorPage StatusInternalServerError
                     (''Error reading from '' @ [CHR 0x27] @ dbName @ [CHR 0x27]
                        @ ''.  Possibly encrypted or not a database?''))
      | Inr tables \<Rightarrow>
      if length tables = 0
      then reply (ErrorPage StatusInternalServerError ''Database has no tables?'')
      else if dbTable \<noteq> '''' \<and> dbTable \<notin> set tables
      then reply (ErrorPage StatusBadRequest ''Requested table not present'')
      else
      let selected = (if dbTable = '''' then tables ! 0 else dbTable);
          call = Call_Select (''SELECT * FROM '' @ selected @ '' LIMIT ?'') [limit]
      in
      case conn_Select db (''SELECT * FROM '' @ selected @ '' LIMIT ?'') [limit] of
        PrepareFails \<Rightarrow> outcome_of (ErrorPage StatusInternalServerError ''Internal error'') [call] []
      | SelectFails \<Rightarrow>
          outcome_of (ErrorPage StatusInternalServerError
                        (''Error reading data from '' @ [CHR 0x27] @ dbName @ [CHR 0x27]
                           @ ''.  Possibly malformed?'')) [call] []
      | Rows stmt \<Rightarrow>
      let colNames = stmt_cols stmt;
          records = map (databasePage_row colNames) (stmt_rows stmt)
      in
      case conn_OneValue db (''SELECT count(*) FROM '' @ selected) of
        None \<Rightarrow> outcome_of (ErrorPage StatusInternalServerError ''Database query failure'')
                  [call] []
      | Some rowTotal \<Rightarrow>
      let page =
            \<lparr>Meta = \<lparr>LoggedInUser = loggedInUser, Username = userName, Database = dbName,
                     Server = WebServer svc, Title = userName @ '' / '' @ dbName\<rparr>,
             DB = dbInfo\<lparr>MaxRows := limit, Tables := tables\<rparr>,
             Data = \<lparr>ColNames = colNames, ColCount = int (length colNames), Records = records,
                     RowCount = rowTotal, TotalRows = 0, Tablename = selected\<rparr>,
             PageColNames = []\<rparr>
      in outcome_of (RenderPage ''databasePage'' page) [call] [(pageCacheKey, CachedPage page)])"

subsection \<open>\<open>downloadCSVHandler\<close>\<close>


subsection \<open>\<open>visData\<close>\<close>

text \<open>The switch on the operator of the filter; \<open>None\<close> is its default branch.\<close>

definition where_type :: "string \<Rightarrow> string option" where
  "where_type reqWType =
     (if reqWType = '''' then Some ''''
      else if reqWType \<in> set [''LIKE'', ''='', ''!='', ''<'', ''<='', ''>'', ''>='']
      then Some reqWType
      else None)"

definition visData :: "services \<Rightarrow> request \<Rightarrow> outcome" where
  "visData svc r =
     (case url_ODTV r of
        Inl err \<Rightarrow> reply (ErrorPage StatusBadRequest err)
      | Inr (userName, dbName, requestedTable, _) \<Rightarrow>
      let reqXCol = FormValue r ''xcol''; reqYCol = FormValue r ''ycol'' in
      if reqXCol \<noteq> '''' \<and> \<not> ValidatePGTable svc reqXCol then reply NoResponse
      else if reqYCol \<noteq> '''' \<and> \<not> ValidatePGTable svc reqYCol then reply NoResponse
      else
      let xCol = reqXCol; yCol = reqYCol;
          reqWCol = FormValue r ''wherecol''; reqWType = FormValue r ''wheretype'';
          reqWVal = FormValue r ''whereval''
      in
      if reqWCol \<noteq> '''' \<and> \<not> ValidatePGTable svc reqWCol then reply NoResponse
      else
      let wCol = reqWCol in
      case where_type reqWType of
        None \<Rightarrow> reply NoResponse
      | Some wType \<Rightarrow>
      let whereClauses = (if reqWVal \<noteq> '''' \<and> wType \<noteq> ''''
                          then [\<lparr>wc_Column = wCol, wc_Type = wType, wc_Value = reqWVal\<rparr>]
                          else []);
          wVal = (if reqWVal \<noteq> '''' \<and> wType \<noteq> '''' then reqWVal else '''');
          loggedInUser = loggedInUser_of r
      in
      case CheckUserDBAccess svc loggedInUser userName dbName of
        Inl err \<Rightarrow> reply (ErrorPage StatusBadRequest err)
      | Inr dbInfo \<Rightarrow>
      let pageCacheKey = visData_pageCacheKey (md5_Sum svc) loggedInUser userName dbName
                           requestedTable xCol yCol wCol wType wVal
      in
      case cached_bytes (GetCachedData svc pageCacheKey) of
        Some jsonResponse \<Rightarrow> reply (Body jsonResponse)
      | None \<Rightarrow>
      case OpenMinioObject svc (MinioBkt dbInfo) (MinioId dbInfo) of
        Inl err \<Rightarrow> reply NoResponse
      | Inr sdb \<Rightarrow>
      case conn_Tables sdb of
        Inl err \<Rightarrow> reply NoResponse
      | Inr tables \<Rightarrow>
      if length tables = 0 then reply NoResponse
      else
      let checked = (if requestedTable \<noteq> '''' \<and> requestedTable \<in> set tables
                     then requestedTable else '''');
          dbTable = (if checked = '''' then tables ! 0 else checked);
          maxVals = 2500;
          call = (if xCol \<noteq> '''' \<and> yCol \<noteq> ''''
                  then Call_ReadSQLiteDBCols requestedTable True True maxVals whereClauses xCol yCol
                  else Call_ReadSQLiteDB requestedTable maxVals);
          result = (if xCol \<noteq> '''' \<and> yCol \<noteq> ''''
                    then ReadSQLiteDBCols svc sdb requestedTable True True maxVals whereClauses
                           xCol yCol
                    else ReadSQLiteDB svc sdb requestedTable maxVals)
      in
      case result of
        Inl err \<Rightarrow> \<lparr>oc_response = ErrorPage StatusBadRequest err, oc_reads = [call],
                     oc_cached = []\<rparr>
      | Inr recordSet \<Rightarrow>
      case json_Marshal svc recordSet of
        None \<Rightarrow> \<lparr>oc_response = NoResponse, oc_reads = [call], oc_cached = []\<rparr>
      | Some jsonResponse \<Rightarrow>
          \<lparr>oc_response = Body jsonResponse, oc_reads = [call],
           oc_cached = [(pageCacheKey, CachedBytes jsonResponse)]\<rparr>)"

subsection \<open>\<open>visualisePage\<close>\<close>


subsection \<open>\<open>tableViewHandler\<close> and the metadata store it queries\<close>

text \<open>
  The two tables the queries of \<open>tableViewHandler\<close> read, with the columns the handlers
  name. A field is named after the alias its table has in the query (\<open>db\<close>, \<open>ver\<close>) and
  its column.
\<close>

record sqlite_databases_row =
  db_idnum :: int
  db_username :: user
  db_folder :: string
  db_dbname :: dbname
  db_minio_bucket :: string

record database_versions_row =
  ver_db :: int
  ver_size :: int
  ver_version :: int
  ver_sha256 :: string
  ver_public :: bool
  ver_minioid :: string

record pg =
  sqlite_databases :: "sqlite_databases_row list"
  database_versions :: "database_versions_row list"

text \<open>
  \<open>WITH requested_db AS (SELECT ... FROM sqlite_databases WHERE username = $1 AND dbname = $2)\<close>
\<close>

definition requested_db :: "pg \<Rightarrow> user \<Rightarrow> dbname \<Rightarrow> sqlite_databases_row list" where
  "requested_db store owner n =
     filter (\<lambda>d. db_username d = owner \<and> db_dbname d = n) (sqlite_databases store)"

text \<open>\<open>FROM database_versions AS ver, requested_db AS db WHERE ver.db = db.idnum\<close>\<close>

definition ver_join_db ::
  "pg \<Rightarrow> user \<Rightarrow> dbname \<Rightarrow> (database_versions_row \<times> sqlite_databases_row) list" where
  "ver_join_db store owner n =
     [(ver, d). ver \<leftarrow> database_versions store, d \<leftarrow> requested_db store owner n,
                ver_db ver = db_idnum d]"

text \<open>
  \<open>ORDER BY version DESC LIMIT 1\<close>: a row whose version no other row exceeds, no row when
  there is none (\<open>Scan\<close> then fails with \<open>ErrNoRows\<close>).
\<close>

fun order_by_version_desc_limit_1 ::
  "(database_versions_row \<times> sqlite_databases_row) list
     \<Rightarrow> (database_versions_row \<times> sqlite_databases_row) option" where
  "order_by_version_desc_limit_1 [] = None"
| "order_by_version_desc_limit_1 (row # rows) =
     (case order_by_version_desc_limit_1 rows of
        None \<Rightarrow> Some row
      | Some best \<Rightarrow> if ver_version (fst row) < ver_version (fst best) then Some best else Some row)"

text \<open>\<open>SELECT db.minio_bucket, ver.minioid\<close>, scanned into \<open>minioInfo\<close>.\<close>

definition scan_minioInfo ::
  "(database_versions_row \<times> sqlite_databases_row) option \<Rightarrow> (string \<times> string) option" where
  "scan_minioInfo row = map_option (\<lambda>(ver, d). (db_minio_bucket d, ver_minioid ver)) row"

definition QueryRow_public :: "pg \<Rightarrow> user \<Rightarrow> dbname \<Rightarrow> (string \<times> string) option" where
  "QueryRow_public store owner n =
     scan_minioInfo (order_by_version_desc_limit_1
       (filter (\<lambda>(ver, d). ver_public ver = True) (ver_join_db store owner n)))"

definition QueryRow_owner :: "pg \<Rightarrow> user \<Rightarrow> dbname \<Rightarrow> (string \<times> string) option" where
  "QueryRow_owner store owner n =
     scan_minioInfo (order_by_version_desc_limit_1 (ver_join_db store owner n))"

text \<open>The branch on \<open>loggedInUser != dbOwner\<close> that chooses the query.\<close>

definition tableView_query :: "pg \<Rightarrow> user \<Rightarrow> user \<Rightarrow> dbname \<Rightarrow> (string \<times> string) option" where
  "tableView_query store loggedInUser dbOwner dbName =
     (if loggedInUser \<noteq> dbOwner then QueryRow_public store dbOwner dbName
      else QueryRow_owner store dbOwner dbName)"

text \<open>
  The location the handler goes on with: the cached one when the cache has it, the
  answer of the query otherwise, which is then cached.
\<close>

definition tableView_locate ::
  "services \<Rightarrow> pg \<Rightarrow> user \<Rightarrow> user \<Rightarrow> dbname \<Rightarrow> (string \<times> string) option \<times> (string \<times> cached) list" where
  "tableView_locate svc store loggedInUser dbOwner dbName =
     (let queryCacheKey = tableView_queryCacheKey (md5_Sum svc) loggedInUser dbOwner dbName in
      case cached_minioInfo (GetCachedData svc queryCacheKey) of
        Some minioInfo \<Rightarrow> (Some minioInfo, [])
      | None \<Rightarrow>
        (case tableView_query store loggedInUser dbOwner dbName of
           None \<Rightarrow> (None, [])
         | Some (bucket, objId) \<Rightarrow>
             (Some (bucket, objId), [(queryCacheKey, CachedMinioInfo bucket objId)])))"

text \<open>The handler from its "Sanity check" on, once a location is at hand.\<close>

definition tableView_serve ::
  "services \<Rightarrow> user \<Rightarrow> user \<Rightarrow> dbname \<Rightarrow> tablename \<Rightarrow> string \<Rightarrow> string
     \<Rightarrow> (string \<times> cached) list \<Rightarrow> outcome" where
  "tableView_serve svc loggedInUser dbOwner dbName requested bucket objId entries =
     (if objId = '''' then outcome_of NoResponse [] entries
      else
      let limit = maxRows (PrefUserMaxRows svc) loggedInUser;
          jsonCacheKey = tableView_jsonCacheKey (md5_Sum svc) (PrefUserMaxRows svc)
                           loggedInUser dbOwner dbName requested
      in
      case cached_bytes (GetCachedData svc jsonCacheKey) of
        Some jsonResponse \<Rightarrow> outcome_of (Body jsonResponse) [] entries
      | None \<Rightarrow>
      case minio_GetObject svc bucket objId of
        None \<Rightarrow> outcome_of NoResponse [] entries
      | Some userDB \<Rightarrow>
      if \<not> TempFile_ok svc then outcome_of NoResponse [] entries
      else if length userDB = 0 then outcome_of NoResponse [] entries
      else
      case sqlite_Open svc userDB of
        None \<Rightarrow> outcome_of NoResponse [] entries
      | Some db \<Rightarrow>
      case conn_Tables db of
        Inl err \<Rightarrow> outcome_of NoResponse [] entries
      | Inr tables \<Rightarrow>
      if length tables = 0 then outcome_of NoResponse [] entries
      else if requested \<noteq> '''' \<and> requested \<notin> set tables
      then outcome_of (ErrorPage StatusBadRequest ''Requested table does not exist'') [] entries
      else
      let requestedTable = (if requested = '''' then tables ! 0 else requested);
          call = Call_ReadSQLiteDB requestedTable limit
      in
      case ReadSQLiteDB svc db requestedTable limit of
        Inl err \<Rightarrow> outcome_of (ErrorPage StatusBadRequest err) [call] entries
      | Inr readRows \<Rightarrow>
      case GetSQLiteRowCount svc db requestedTable of
        Inl err \<Rightarrow> outcome_of (ErrorPage StatusInternalServerError err) [call] entries
      | Inr rowTotal \<Rightarrow>
      let dataRows = readRows\<lparr>TotalRows := rowTotal\<rparr> in
      case (if RowCount dataRows > 0 then json_MarshalIndent svc dataRows
            else Some [CHR ''{'', CHR '']'']) of
        None \<Rightarrow> outcome_of NoResponse [call] entries
      | Some jsonResponse \<Rightarrow>
          outcome_of (Body jsonResponse) [call]
            (entries @ [(jsonCacheKey, CachedBytes jsonResponse)]))"

definition tableViewHandler :: "services \<Rightarrow> pg \<Rightarrow> request \<Rightarrow> outcome" where
  "tableViewHandler svc store r =
     (case url_ODTV r of
        Inl err \<Rightarrow> reply (ErrorPage StatusBadRequest err)
      | Inr parsed \<Rightarrow>
      let dbOwner = fst parsed; dbName = fst (snd parsed); requested = fst (snd (snd parsed));
          loggedInUser = loggedInUser_of r;
          located = tableView_locate svc store loggedInUser dbOwner dbName
      in
      case fst located of
        None \<Rightarrow> reply NoResponse
      | Some minioInfo \<Rightarrow>
          tableView_serve svc loggedInUser dbOwner dbName requested (fst minioInfo) (snd minioInfo)
            (snd located))"

text \<open>
  The handler as the second source file has it (\<open>unnamed/part_001\<close>): the location comes
  from \<open>com.MinioBucketID\<close> (the field \<open>MinioID\<close>, its name in the first file), nothing is
  cached, and the error of \<open>com.OpenMinioObject\<close> is not checked; the model takes
  \<open>Tables\<close> to fail on the handle of an open that failed.
\<close>

definition tableViewHandler_001 :: "services \<Rightarrow> request \<Rightarrow> outcome" where
  "tableViewHandler_001 svc r =
     (case url_ODTV r of
        Inl err \<Rightarrow> reply (ErrorPage StatusBadRequest err)
      | Inr parsed \<Rightarrow>
      let dbOwner = fst parsed; dbName = fst (snd parsed); requested = fst (snd (snd parsed));
          dbVersion = snd (snd (snd parsed));
          loggedInUser = loggedInUser_of r
      in
      case MinioID svc dbOwner dbName dbVersion loggedInUser of
        Inl err \<Rightarrow> reply (ErrorPage StatusInternalServerError err)
      | Inr minioInfo \<Rightarrow>
      if snd minioInfo = '''' then reply NoResponse
      else
      let limit = maxRows (PrefUserMaxRows svc) loggedInUser in
      case OpenMinioObject svc (fst minioInfo) (snd minioInfo) of
        Inl err \<Rightarrow> reply NoResponse
      | Inr sdb \<Rightarrow>
      case conn_Tables sdb of
        Inl err \<Rightarrow> reply NoResponse
      | Inr tables \<Rightarrow>
      if length tables = 0 then reply NoResponse
      else if requested \<noteq> '''' \<and> requested \<notin> set tables
      then reply (ErrorPage StatusBadRequest ''Requested table does not exist'')
      else
      let requestedTable = (if requested = '''' then tables ! 0 else requested);
          call = Call_ReadSQLiteDB requestedTable limit
      in
      case ReadSQLiteDB svc sdb requestedTable limit of
        Inl err \<Rightarrow> outcome_of (ErrorPage StatusBadRequest err) [call] []
      | Inr readRows \<Rightarrow>
      case GetSQLiteRowCount svc sdb requestedTable of
        Inl err \<Rightarrow> outcome_of (ErrorPage StatusInternalServerError err) [call] []
      | Inr rowTotal \<Rightarrow>
      let dataRows = readRows\<lparr>TotalRows := rowTotal\<rparr> in
      case (if RowCount dataRows > 0 then json_MarshalIndent svc dataRows
            else Some [CHR ''{'', CHR '']'']) of
        None \<Rightarrow> outcome_of NoResponse [call] []
      | Some jsonResponse \<Rightarrow> outcome_of (Body jsonResponse) [call] [])"

text \<open>
  A necessary condition for a text to be well-formed JSON, outside string literals:
  every closing bracket closes the bracket opened last. \<open>balanced\<close> reads a text that has
  no string literal.
\<close>

fun balanced_from :: "char list \<Rightarrow> string \<Rightarrow> bool" where
  "balanced_from stack [] = (stack = [])"
| "balanced_from stack (c # cs) =
     (if c = CHR ''{'' \<or> c = CHR ''['' then balanced_from (c # stack) cs
      else if c = CHR ''}'' then (case stack of [] \<Rightarrow> False
             | opened # below \<Rightarrow> opened = CHR ''{'' \<and> balanced_from below cs)
      else if c = CHR '']'' then (case stack of [] \<Rightarrow> False
             | opened # below \<Rightarrow> opened = CHR ''['' \<and> balanced_from below cs)
      else balanced_from stack cs)"

definition balanced :: "string \<Rightarrow> bool" where
  "balanced s = balanced_from [] s"

section \<open>What a handler asked of the shared read functions\<close>



section \<open>Version selection, in the words of the specification\<close>

text \<open>
  The versions of a database a viewer may be given: the rows of the version table that
  belong to the database of that owner and name, all of them for the owner, the public
  ones for anybody else. Each comes with the row of its database.
\<close>

definition visible_versions ::
  "pg \<Rightarrow> user \<Rightarrow> user \<Rightarrow> dbname \<Rightarrow> (database_versions_row \<times> sqlite_databases_row) set" where
  "visible_versions store viewer owner n =
     {(ver, d). ver \<in> set (database_versions store) \<and> d \<in> set (sqlite_databases store)
        \<and> db_username d = owner \<and> db_dbname d = n \<and> ver_db ver = db_idnum d
        \<and> (viewer = owner \<or> ver_public ver)}"

section \<open>\<open>uploadDataHandler\<close> and the two stores it writes\<close>

text \<open>
  Modelled from the spec: \<open>com.StoreMinioObject\<close>, \<open>com.AddDatabase\<close> and
  \<open>com.HighestDBVersion\<close> are not part of the sources. The object store maps a bucket
  and an object id to the bytes stored; the metadata store holds one row per database
  version, with the arguments \<open>AddDatabase\<close> is called with. A successful
  \<open>StoreMinioObject\<close> stores the object, a successful \<open>AddDatabase\<close> adds the row, and a
  failed call changes nothing. \<open>com.HighestDBVersion\<close> returns a number and an error:
  with no error the number is \<open>HighestDBVersion\<close>, the highest version number stored for
  the owner and name, 0 when there is none. What number comes with an error is not known;
  it is part of the surroundings of the handler (\<open>HighestDBVersion_err\<close> below).
\<close>

record version_row =
  md_owner :: user
  md_folder :: string
  md_dbname :: dbname
  md_version :: int
  md_sha256 :: "byte list"
  md_size :: int
  md_public :: bool
  md_bucket :: string
  md_minioid :: string

record stores =
  objects :: "(string \<times> string) \<rightharpoonup> byte list"
  versions :: "version_row list"

definition HighestDBVersion :: "stores \<Rightarrow> user \<Rightarrow> dbname \<Rightarrow> int" where
  "HighestDBVersion s owner n =
     foldr max [md_version row. row \<leftarrow> versions s, md_owner row = owner \<and> md_dbname row = n] 0"

datatype effect =
    StoreMinioObject string string "byte list"
  | AddDatabase version_row

fun apply_effect :: "stores \<Rightarrow> effect \<Rightarrow> stores" where
  "apply_effect s (StoreMinioObject bucket objId content) =
     s\<lparr>objects := (objects s)((bucket, objId) \<mapsto> content)\<rparr>"
| "apply_effect s (AddDatabase row) = s\<lparr>versions := versions s @ [row]\<rparr>"

text \<open>
  What the handler gets from its surroundings: the outcome of each call that can fail,
  the digest, the bucket of the user (\<open>com.MinioUserBucket\<close>, with the kind of its error),
  the string the k-th call of \<open>com.RandomString(8)\<close> returns, and whether an object id is
  free (\<open>com.CheckMinioIDAvail\<close>). \<open>HighestDBVersion_err\<close> is \<open>None\<close> when the lookup of
  the highest version succeeds, and the number returned with the error when it fails.
\<close>

datatype lookup_error = NoError | ErrNoRows | OtherError

record upload_env =
  ValidateDB :: "dbname \<Rightarrow> bool"
  copy_ok :: bool
  tempfile_ok :: bool
  write_ok :: bool
  upload_Open :: "byte list \<Rightarrow> sqlite_conn option"
  sha256_Sum :: "byte list \<Rightarrow> byte list"
  HighestDBVersion_err :: "user \<Rightarrow> dbname \<Rightarrow> int option"
  MinioUserBucket :: "user \<Rightarrow> string \<times> lookup_error"
  RandomString :: "nat \<Rightarrow> string"
  CheckMinioIDAvail :: "user \<Rightarrow> string \<Rightarrow> string + bool"
  StoreMinioObject_ok :: "string \<Rightarrow> string \<Rightarrow> bool"
  AddDatabase_ok :: "version_row \<Rightarrow> bool"

text \<open>
  What the handler reads of the request: the session, the error of \<open>ParseForm\<close>, the form
  field \<open>public\<close>, and the uploaded file (its bytes, its file name and its
  \<open>Content-Type\<close> header), \<open>None\<close> when \<open>FormFile\<close> fails.
\<close>

record upload_request =
  up_session :: "user option"
  up_ParseForm :: "string option"
  up_public :: string
  up_FormFile :: "(byte list \<times> dbname \<times> string list) option"

text \<open>\<open>strconv.ParseBool\<close>\<close>

definition ParseBool :: "string \<Rightarrow> bool option" where
  "ParseBool str =
     (if str \<in> set [''1'', ''t'', ''T'', ''TRUE'', ''true'', ''True''] then Some True
      else if str \<in> set [''0'', ''f'', ''F'', ''FALSE'', ''false'', ''False''] then Some False
      else None)"

text \<open>
  The loop that draws object ids until one is free. It may run forever: \<open>None\<close> is the
  loop that never ends.
\<close>

partial_function (option) pick_minioID ::
  "(string \<Rightarrow> string + bool) \<Rightarrow> (nat \<Rightarrow> string) \<Rightarrow> nat \<Rightarrow> (string + string) option" where
  "pick_minioID avail rnd k =
     (case avail (rnd k @ ''.db'') of
        Inl err \<Rightarrow> Some (Inl err)
      | Inr okID \<Rightarrow> if okID then Some (Inr (rnd k @ ''.db'')) else pick_minioID avail rnd (Suc k))"

text \<open>
  \<open>UploadPanic\<close> is a run-time panic: the log call after a failed \<open>ioutil.TempFile\<close>
  reads the name of a nil file, and \<open>handler.Header["Content-Type"][0]\<close> indexes an empty
  slice when the part has no such header. \<open>UploadSucceeded\<close> is the page that leads back
  to the profile of the user.
\<close>

datatype upload_response =
    UploadError nat string
  | UploadPanic
  | UploadSucceeded user

text \<open>
  The block "Determine the version number for this new database". The version is a Go
  \<open>int\<close>, of 64 bits: \<open>highVer + 1\<close> wraps around at the largest of them.
\<close>

definition MaxInt64 :: int where
  "MaxInt64 = 9223372036854775807"

definition wrap_int64 :: "int \<Rightarrow> int" where
  "wrap_int64 x = (x + 9223372036854775808) mod 18446744073709551616 - 9223372036854775808"

definition newVer_of :: "int \<Rightarrow> int" where
  "newVer_of highVer = (if highVer > 0 then wrap_int64 (highVer + 1) else 1)"

text \<open>
  The handler returns its response and the writes it made, in order; the lookups read
  the stores as they are when the request arrives.
\<close>

text \<open>
  The handler from "Generate sha256 of the uploaded file" on, for a file that passed the
  sanity check. The error \<open>com.HighestDBVersion\<close> returns is assigned and never read:
  the number returned is used whether the lookup failed or not.
\<close>

definition lookup_highVer :: "upload_env \<Rightarrow> stores \<Rightarrow> user \<Rightarrow> dbname \<Rightarrow> int" where
  "lookup_highVer env s loggedInUser dbName =
     (case HighestDBVersion_err env loggedInUser dbName of
        None \<Rightarrow> HighestDBVersion s loggedInUser dbName
      | Some returned \<Rightarrow> returned)"

definition upload_commit ::
  "upload_env \<Rightarrow> stores \<Rightarrow> user \<Rightarrow> bool \<Rightarrow> byte list \<Rightarrow> dbname \<Rightarrow> string list
     \<Rightarrow> (upload_response \<times> effect list) option" where
  "upload_commit env s loggedInUser isPublic tempBuf dbName contentType =
     (let shaSum = sha256_Sum env tempBuf;
          highVer = lookup_highVer env s loggedInUser dbName;
          newVer = newVer_of highVer;
          bucket = fst (MinioUserBucket env loggedInUser);
          err = snd (MinioUserBucket env loggedInUser)
      in
      if err \<noteq> NoError \<and> err \<noteq> ErrNoRows
      then Some (UploadError StatusInternalServerError ''Database query failure'', [])
      else
      case pick_minioID (CheckMinioIDAvail env loggedInUser) (RandomString env) 0 of
        None \<Rightarrow> None
      | Some (Inl failed) \<Rightarrow>
          Some (UploadError StatusInternalServerError ''Database query failure'', [])
      | Some (Inr minioID) \<Rightarrow>
      if contentType = [] then Some (UploadPanic, [])
      else if \<not> StoreMinioObject_ok env bucket minioID
      then Some (UploadError StatusInternalServerError ''Storing database file failed'', [])
      else
      let row = \<lparr>md_owner = loggedInUser, md_folder = ''/'', md_dbname = dbName,
                 md_version = newVer, md_sha256 = shaSum, md_size = int (length tempBuf),
                 md_public = isPublic, md_bucket = bucket, md_minioid = minioID\<rparr>
      in
      if \<not> AddDatabase_ok env row
      then Some (UploadError StatusInternalServerError
                   ''Adding database details to PostgreSQL failed'',
                 [StoreMinioObject bucket minioID tempBuf])
      else Some (UploadSucceeded loggedInUser,
                 [StoreMinioObject bucket minioID tempBuf, AddDatabase row]))"

definition uploadDataHandler ::
  "upload_env \<Rightarrow> stores \<Rightarrow> upload_request \<Rightarrow> (upload_response \<times> effect list) option" where
  "uploadDataHandler env s r =
     (case up_session r of
        None \<Rightarrow> Some (UploadError StatusUnauthorized ''You need to be logged in'', [])
      | Some loggedInUser \<Rightarrow>
      case up_ParseForm r of
        Some err \<Rightarrow> Some (UploadError StatusInternalServerError err, [])
      | None \<Rightarrow>
      case ParseBool (up_public r) of
        None \<Rightarrow> Some (UploadError StatusBadRequest ''Public value incorrect'', [])
      | Some isPublic \<Rightarrow>
      case up_FormFile r of
        None \<Rightarrow> Some (UploadError StatusInternalServerError
                        ''Database file missing from upload data?'', [])
      | Some upload \<Rightarrow>
      let tempBuf = fst upload; dbName = fst (snd upload); contentType = snd (snd upload) in
      if \<not> ValidateDB env dbName
      then Some (UploadError StatusBadRequest ''Invalid database name'', [])
      else if \<not> copy_ok env then Some (UploadError StatusInternalServerError ''Internal error'', [])
      else if length tempBuf = 0
      then Some (UploadError StatusBadRequest ''Database file is 0 length?'', [])
      else if \<not> tempfile_ok env then Some (UploadPanic, [])
      else if \<not> write_ok env then Some (UploadError StatusInternalServerError ''Internal error'', [])
      else
      case upload_Open env tempBuf of
        None \<Rightarrow> Some (UploadError StatusInternalServerError ''Internal error'', [])
      | Some sqliteDB \<Rightarrow>
      case conn_Tables sqliteDB of
        Inl err \<Rightarrow> Some (UploadError StatusInternalServerError
             ''Error when sanity checking file.  Possibly encrypted or not a database?'', [])
      | Inr tables \<Rightarrow>
      if length tables = 0
      then Some (UploadError StatusInternalServerError ''Database has no tables?'', [])
      else upload_commit env s loggedInUser isPublic tempBuf dbName contentType)"

text \<open>
  No version row refers to an object the object store does not hold. A state is reachable
  when uploads, each cut off after any number of its writes, lead to it from the empty
  stores.
\<close>

definition no_dangling :: "stores \<Rightarrow> bool" where
  "no_dangling s =
     (\<forall>row \<in> set (versions s). objects s (md_bucket row, md_minioid row) \<noteq> None)"

definition empty_stores :: stores where
  "empty_stores = \<lparr>objects = Map.empty, versions = []\<rparr>"

inductive reachable :: "stores \<Rightarrow> bool" where
  start: "reachable empty_stores"
| upload: "reachable s \<Longrightarrow> uploadDataHandler env s r = Some (resp, effs) \<Longrightarrow> k \<le> length effs
           \<Longrightarrow> reachable (foldl apply_effect s (take k effs))"

text \<open>
  An upload fails validation when there is no file, the file does not open, listing its
  tables fails, or it has no table.
\<close>

definition fails_validation :: "upload_env \<Rightarrow> upload_request \<Rightarrow> bool" where
  "fails_validation env r =
     (case up_FormFile r of
        None \<Rightarrow> True
      | Some (tempBuf, _, _) \<Rightarrow>
          (case upload_Open env tempBuf of
             None \<Rightarrow> True
           | Some sqliteDB \<Rightarrow>
               (case conn_Tables sqliteDB of Inl _ \<Rightarrow> True | Inr tables \<Rightarrow> length tables = 0)))"

text \<open>The version numbers stored for an owner and a database name.\<close>

definition existing_versions :: "stores \<Rightarrow> user \<Rightarrow> dbname \<Rightarrow> int set" where
  "existing_versions s owner n =
     {md_version row | row. row \<in> set (versions s) \<and> md_owner row = owner \<and> md_dbname row = n}"

section \<open>A scenario\<close>

text \<open>
  User carol has the database \<open>db\<close>, version 1 public and version 2 private; the file has
  one table \<open>t\<close> with the columns \<open>a\<close> and \<open>b\<close>. The cache is empty, every service
  succeeds, the preference of every user is 25 rows.

  \<open>example_conn\<close> is that file with the given rows in \<open>t\<close>, as SQLite answers for it to
  the statements the scenario runs: \<open>SELECT * FROM t\<close> gives the rows, with \<open>LIMIT ?\<close>
  the first of them up to the bound value (all of them when it is negative), and the
  count gives their number. A statement on the table \<open>nosuch\<close>, which the file does not
  have, fails; the scenario runs no other text, and any other is answered as a failure
  here.

  Modelled from the spec: \<open>com.ReadSQLiteDB\<close> and \<open>com.GetSQLiteRowCount\<close> are not part of
  the sources. The reader of the scenario runs the limited statement on the table it is
  given and reports how many rows it read.
\<close>

definition sql_limit :: "int \<Rightarrow> 'a list \<Rightarrow> 'a list" where
  "sql_limit n rows = (if n < 0 then rows else take (nat n) rows)"

definition example_conn :: "sqlite_value list list \<Rightarrow> sqlite_conn" where
  "example_conn rows =
     \<lparr>conn_Tables = Inr [''t''],
      conn_Select = (\<lambda>text args.
        if text = ''SELECT * FROM t LIMIT ?''
        then (case args of
                [n] \<Rightarrow> Rows \<lparr>stmt_cols = [''a'', ''b''], stmt_rows = sql_limit n rows\<rparr>
              | _ \<Rightarrow> PrepareFails)
        else if text = ''SELECT * FROM t'' \<and> args = []
        then Rows \<lparr>stmt_cols = [''a'', ''b''], stmt_rows = rows\<rparr>
        else PrepareFails),
      conn_OneValue = (\<lambda>text.
        if text = ''SELECT count(*) FROM t'' then Some (int (length rows)) else None)\<rparr>"

definition example_read :: "sqlite_conn \<Rightarrow> tablename \<Rightarrow> int \<Rightarrow> string + SQLiteRecordSet" where
  "example_read c tbl n =
     (case conn_Select c (''SELECT * FROM '' @ tbl @ '' LIMIT ?'') [n] of
        Rows s \<Rightarrow> Inr \<lparr>ColNames = stmt_cols s, ColCount = int (length (stmt_cols s)),
                       Records = [], RowCount = int (length (stmt_rows s)), TotalRows = 0,
                       Tablename = tbl\<rparr>
      | _ \<Rightarrow> Inl ''no such table'')"

definition example_services :: "digest \<Rightarrow> sqlite_value list list \<Rightarrow> services" where
  "example_services md5 rows =
     \<lparr>md5_Sum = md5,
      json_Marshal = (\<lambda>_. Some ''json''),
      json_MarshalIndent = (\<lambda>_. Some ''json''),
      ValidatePGTable = (\<lambda>_. True),
      CheckUserDBAccess = (\<lambda>_ _ _. Inr \<lparr>MaxRows = 0, MinioBkt = ''bkt'', MinioId = ''obj.db'', Tables = []\<rparr>),
      MinioID = (\<lambda>_ _ _ _. Inr (''bkt'', ''obj.db'')),
      PrefUserMaxRows = (\<lambda>_. 25),
      GetCachedData = (\<lambda>_. None),
      OpenMinioObject = (\<lambda>_ _. Inr (example_conn rows)),
      minio_GetObject = (\<lambda>_ _. Some [0x53]),
      TempFile_ok = True,
      sqlite_Open = (\<lambda>_. Some (example_conn rows)),
      ReadSQLiteDB = example_read,
      ReadSQLiteDBCols = (\<lambda>c tbl _ _ n _ _ _. example_read c tbl n),
      GetSQLiteRowCount = (\<lambda>c tbl.
        case conn_OneValue c (''SELECT count(*) FROM '' @ tbl) of
          None \<Rightarrow> Inl ''no such table''
        | Some n \<Rightarrow> Inr n),
      WebServer = ''''\<rparr>"

definition example_request :: "user option \<Rightarrow> tablename \<Rightarrow> (string \<Rightarrow> string) \<Rightarrow> request" where
  "example_request viewer tbl form =
     \<lparr>session_UserName = viewer, url_ODTV = Inr (''carol'', ''db'', tbl, 0), FormValue = form\<rparr>"

definition example_pg :: pg where
  "example_pg =
     \<lparr>sqlite_databases =
        [\<lparr>db_idnum = 1, db_username = ''carol'', db_folder = ''/'', db_dbname = ''db'',
          db_minio_bucket = ''bkt''\<rparr>],
      database_versions =
        [\<lparr>ver_db = 1, ver_size = 8, ver_version = 1, ver_sha256 = '''', ver_public = True,
          ver_minioid = ''v1.db''\<rparr>,
         \<lparr>ver_db = 1, ver_size = 8, ver_version = 2, ver_sha256 = '''', ver_public = False,
          ver_minioid = ''v2.db''\<rparr>]\<rparr>"


text \<open>
  An upload by carol of a two-byte file named \<open>test.db\<close>; the first object id drawn is
  taken, the second is free, and every lookup succeeds.
\<close>

definition example_env :: upload_env where
  "example_env =
     \<lparr>ValidateDB = (\<lambda>_. True), copy_ok = True, tempfile_ok = True, write_ok = True,
      upload_Open = (\<lambda>_. Some (example_conn [])),
      sha256_Sum = (\<lambda>_. []),
      HighestDBVersion_err = (\<lambda>_ _. None),
      MinioUserBucket = (\<lambda>_. (''bkt'', NoError)),
      RandomString = (\<lambda>k. if k = 0 then ''aaaaaaaa'' else ''bbbbbbbb''),
      CheckMinioIDAvail = (\<lambda>_ objId. Inr (objId \<noteq> ''aaaaaaaa.db'')),
      StoreMinioObject_ok = (\<lambda>_ _. True),
      AddDatabase_ok = (\<lambda>_. True)\<rparr>"

definition example_upload :: upload_request where
  "example_upload =
     \<lparr>up_session = Some ''carol'', up_ParseForm = None, up_public = ''true'',
      up_FormFile = Some ([0x53, 0x51], ''test.db'', [''application/x-sqlite3''])\<rparr>"

definition example_row :: "int \<Rightarrow> version_row" where
  "example_row v =
     \<lparr>md_owner = ''carol'', md_folder = ''/'', md_dbname = ''test.db'', md_version = v,
      md_sha256 = [], md_size = 2, md_public = True, md_bucket = ''bkt'',
      md_minioid = ''bbbbbbbb.db''\<rparr>"

definition example_store1 :: stores where
  "example_store1 =
     foldl apply_effect empty_stores
       [StoreMinioObject ''bkt'' ''bbbbbbbb.db'' [0x53, 0x51], AddDatabase (example_row 1)]"

section \<open>Properties of the library functions\<close>

lemma hi_nibble: "unat (drop_bit 4 (v::byte)) < 16"
proof -
  have "unat v < 256" using unsigned_less[of v, where 'a=nat] by simp
  then show ?thesis by (simp add: unat_drop_bit_eq drop_bit_eq_div unat_div)
qed

lemma lo_nibble: "unat ((v::byte) AND 0x0f) < 16"
proof -
  have "v AND 0x0f \<le> 0x0f" by (rule word_and_le1)
  then have "unat (v AND 0x0f) \<le> unat (0x0f :: byte)" by (simp add: word_le_nat_alt)
  then show ?thesis by simp
qed

lemma hextable_nth: "n < 16 \<Longrightarrow> hextable ! n \<in> set hextable"
  by (rule nth_mem) (simp add: hextable_def)

lemma set_hex_byte: "set (hex_byte v) \<subseteq> set hextable"
  using hextable_nth[OF hi_nibble[of v]] hextable_nth[OF lo_nibble[of v]]
  by (simp add: hex_byte_def)

lemma set_EncodeToString: "set (EncodeToString src) \<subseteq> set hextable"
  using set_hex_byte by (auto simp: EncodeToString_def)

lemma digit_in: "d < 10 \<Longrightarrow> digit d \<in> set ''0123456789''"
  unfolding digit_def by (rule nth_mem) simp

lemma formatBits_nonempty: "formatBits u \<noteq> []"
  by (subst formatBits.simps) simp

lemma set_formatBits: "set (formatBits u) \<subseteq> set ''0123456789''"
proof (induction u rule: formatBits.induct)
  case (1 u)
  show ?case
  proof (cases "u < 10")
    case True
    then show ?thesis using digit_in[of u] by (subst formatBits.simps) simp
  next
    case False
    have "u mod 10 < 10" by simp
    from digit_in[OF this] 1[OF False] False show ?thesis
      by (subst formatBits.simps) simp
  qed
qed

lemma digit_val_digit: "d < 10 \<Longrightarrow> digit_val (digit d) = d"
proof -
  assume "d < 10"
  then have "d \<in> {0,1,2,3,4,5,6,7,8,9}" by auto
  then show ?thesis by (auto simp: digit_val_def digit_def)
qed

lemma atoi_formatBits: "atoi_nat (formatBits u) = u"
proof (induction u rule: formatBits.induct)
  case (1 u)
  show ?case
  proof (cases "u < 10")
    case True
    then show ?thesis by (subst formatBits.simps) (simp add: atoi_nat_def digit_val_digit)
  next
    case False
    have "atoi_nat (formatBits (u div 10) @ [digit (u mod 10)]) = 10 * (u div 10) + u mod 10"
      using 1[OF False] by (simp add: atoi_nat_def digit_val_digit)
    then show ?thesis using False by (subst formatBits.simps) simp
  qed
qed

lemma formatBits_inj: "formatBits u = formatBits v \<Longrightarrow> u = v"
  by (metis atoi_formatBits)

lemma minus_notin_formatBits: "CHR ''-'' \<notin> set (formatBits u)"
  using set_formatBits[of u] by auto

lemma Itoa_inj: "Itoa i = Itoa j \<Longrightarrow> i = j"
proof -
  assume h: "Itoa i = Itoa j"
  have no_sign: "\<And>u v. CHR ''-'' # formatBits u \<noteq> formatBits v"
    using minus_notin_formatBits by (metis list.set_intros(1))
  show ?thesis
  proof (cases "i < 0")
    case True
    note i_neg = True
    show ?thesis
    proof (cases "j < 0")
      case True
      with h i_neg have "nat (- i) = nat (- j)"
        by (simp add: Itoa_def formatBits_inj)
      with True i_neg show ?thesis by simp
    next
      case False
      with h i_neg no_sign show ?thesis by (simp add: Itoa_def)
    qed
  next
    case False
    note i_pos = False
    show ?thesis
    proof (cases "j < 0")
      case True
      with h i_pos no_sign[of "nat (- j)" "nat i"] show ?thesis by (simp add: Itoa_def)
    next
      case False
      with h i_pos have "nat i = nat j"
        by (simp add: Itoa_def formatBits_inj)
      with False i_pos show ?thesis by simp
    qed
  qed
qed

lemma slash_notin_Itoa: "CHR ''/'' \<notin> set (Itoa i)"
  using set_formatBits[of "nat i"] set_formatBits[of "nat (- i)"] by (auto simp: Itoa_def)

lemma slash_notin_hex: "CHR ''/'' \<notin> set (EncodeToString src)"
  using set_EncodeToString[of src] by (auto simp: hextable_def)

lemma p_notin_hex: "CHR ''p'' \<notin> set (EncodeToString src)"
  using set_EncodeToString[of src] by (auto simp: hextable_def)

lemma split_at_last:
  assumes "c \<notin> set s" "c \<notin> set t" "a @ c # s = b @ c # t"
  shows "a = b \<and> s = t"
  using assms
  by (auto simp: append_eq_append_conv2 append_eq_Cons_conv Cons_eq_append_conv)

lemma suffix_limit_eq: "a @ ''/'' @ Itoa m = b @ ''/'' @ Itoa n \<Longrightarrow> m = n"
  using split_at_last[OF slash_notin_Itoa slash_notin_Itoa, of a m b n] Itoa_inj by simp

lemma suffix_limit_eq': "a @ CHR ''/'' # Itoa m = b @ CHR ''/'' # Itoa n \<Longrightarrow> m = n"
  using suffix_limit_eq[of a m b n] by simp

lemma hex_ne_p: "EncodeToString src \<noteq> CHR ''p'' # s"
  using p_notin_hex[of src] by (metis list.set_intros(1))

lemma hex_slash_ne_p: "EncodeToString src @ CHR ''/'' # t \<noteq> CHR ''p'' # s"
  using p_notin_hex[of src] by (cases "EncodeToString src") auto

lemma hex_slash_pub:
  "a @ CHR ''/'' # EncodeToString x = CHR ''p'' # CHR ''u'' # CHR ''b'' # CHR ''/'' # EncodeToString y
     \<Longrightarrow> a = ''pub''"
  using split_at_last[OF slash_notin_hex slash_notin_hex, of a x "''pub''" y] by simp

lemma is_digit_digit: "d < 10 \<Longrightarrow> is_digit (digit d)"
  using digit_in[of d] by (simp add: is_digit_def)

lemma digits_formatBits: "list_all is_digit (formatBits u)"
  unfolding list_all_iff is_digit_def using set_formatBits[of u] by blast

lemma digits_pad4: "list_all is_digit (pad4 n) \<and> length (pad4 n) = 4"
  by (simp add: pad4_def is_digit_digit)

lemma fixed4_unsigned:
  assumes "ip \<noteq> []" "list_all is_digit ip" "list_all is_digit fr" "length fr = 4"
  shows "fixed4 (ip @ CHR ''.'' # fr)"
proof -
  from assms(1) obtain c cs where ip: "ip = c # cs" by (cases ip) auto
  with assms(2) have "c \<noteq> CHR ''-''" by (auto simp: is_digit_def)
  with assms ip show ?thesis by (simp add: fixed4_def Let_def nth_append)
qed

lemma fixed4_signed:
  assumes "ip \<noteq> []" "list_all is_digit ip" "list_all is_digit fr" "length fr = 4"
  shows "fixed4 (CHR ''-'' # ip @ CHR ''.'' # fr)"
proof -
  from assms(1) obtain c cs where ip: "ip = c # cs" by (cases ip) auto
  with assms show ?thesis by (simp add: fixed4_def Let_def nth_append)
qed

lemma FormatFloat_fixed4:
  assumes "float_exp b \<noteq> 2047"
  shows "fixed4 (FormatFloat b)"
proof -
  let ?ip = "formatBits (float_scaled b div 10000)"
  let ?fr = "pad4 (float_scaled b mod 10000)"
  have fr: "list_all is_digit ?fr" "length ?fr = 4" using digits_pad4 by simp_all
  note unsigned = fixed4_unsigned[OF formatBits_nonempty digits_formatBits fr]
  note signed = fixed4_signed[OF formatBits_nonempty digits_formatBits fr]
  show ?thesis
  proof (cases "float_sign b")
    case True
    with assms have "FormatFloat b = CHR ''-'' # ?ip @ CHR ''.'' # ?fr"
      by (simp add: FormatFloat_def)
    with signed show ?thesis by simp
  next
    case False
    with assms have "FormatFloat b = ?ip @ CHR ''.'' # ?fr"
      by (simp add: FormatFloat_def)
    with unsigned show ?thesis by simp
  qed
qed

lemma FormatFloat_special:
  "float_exp b = 2047 \<Longrightarrow> FormatFloat b \<in> {''+Inf'', ''-Inf'', ''NaN''}"
  by (simp add: FormatFloat_def)

lemma FormatFloat_examples:
  "FormatFloat 0x3FF8000000000000 = ''1.5000''
   \<and> FormatFloat 0x3FA0000000000000 = ''0.0312''
   \<and> FormatFloat 0x8000000000000000 = ''-0.0000''
   \<and> FormatFloat 0x7FF0000000000000 = ''+Inf''
   \<and> FormatFloat 0xFFF0000000000000 = ''-Inf''"
  by (simp add: FormatFloat_def float_exp_def float_mant_def float_sign_def float_scaled_def
      round_even_def pad4_def digit_def formatBits.simps Let_def)

section \<open>Cache keys\<close>

text \<open>
  C10. The key under which \<open>databasePage\<close> and \<open>tableViewHandler\<close> look up and store
  the rendered payload is the key of the request followed by \<open>/\<close> and the decimal row
  limit of the request (10 for an anonymous viewer, the viewer's preference otherwise).
  Two requests whose row limits differ never have the same key, whatever their other
  parameters are and whatever the digest function does.
\<close>

theorem rendered_key_carries_row_limit:
  "databasePage_pageCacheKey md5 pref u owner db t
     = databasePage_cacheKey md5 u owner db t @ ''/'' @ Itoa (maxRows pref u)
   \<and> tableView_jsonCacheKey md5 pref u owner db t
     = tableView_cacheKey md5 u owner db t @ ''/'' @ Itoa (maxRows pref u)
   \<and> maxRows pref '''' = 10
   \<and> (u \<noteq> '''' \<longrightarrow> maxRows pref u = pref u)
   \<and> (maxRows pref u \<noteq> maxRows pref' u' \<longrightarrow>
        databasePage_pageCacheKey md5 pref u owner db t
          \<noteq> databasePage_pageCacheKey md5' pref' u' owner' db' t'
        \<and> tableView_jsonCacheKey md5 pref u owner db t
          \<noteq> tableView_jsonCacheKey md5' pref' u' owner' db' t')"
  by (auto simp: databasePage_pageCacheKey_def tableView_jsonCacheKey_def maxRows_def
      dest: suffix_limit_eq')

theorem rendered_key_carries_row_limit_witness:
  "\<forall>md5. maxRows (\<lambda>_. 25) '''' \<noteq> maxRows (\<lambda>_. 25) ''bob''
     \<and> databasePage_pageCacheKey md5 (\<lambda>_. 25) '''' ''carol'' ''db'' ''t''
          \<noteq> databasePage_pageCacheKey md5 (\<lambda>_. 25) ''bob'' ''carol'' ''db'' ''t''
     \<and> tableView_jsonCacheKey md5 (\<lambda>_. 25) '''' ''carol'' ''db'' ''t''
          \<noteq> tableView_jsonCacheKey md5 (\<lambda>_. 25) ''bob'' ''carol'' ''db'' ''t''
     \<and> ''bob'' \<noteq> '''' \<and> maxRows (\<lambda>_. 25) ''bob'' = 25"
proof
  fix md5 :: digest
  have ne: "maxRows (\<lambda>_. 25) '''' \<noteq> maxRows (\<lambda>_. 25) ''bob''"
    by (simp add: maxRows_def)
  from rendered_key_carries_row_limit
         [of md5 "\<lambda>_. 25" "''''" "''carol''" "''db''" "''t''" "\<lambda>_. 25" "''bob''" md5
             "''carol''" "''db''" "''t''"] ne
  have "databasePage_pageCacheKey md5 (\<lambda>_. 25) '''' ''carol'' ''db'' ''t''
          \<noteq> databasePage_pageCacheKey md5 (\<lambda>_. 25) ''bob'' ''carol'' ''db'' ''t''
     \<and> tableView_jsonCacheKey md5 (\<lambda>_. 25) '''' ''carol'' ''db'' ''t''
          \<noteq> tableView_jsonCacheKey md5 (\<lambda>_. 25) ''bob'' ''carol'' ''db'' ''t''"
    by blast
  with ne
  show "maxRows (\<lambda>_. 25) '''' \<noteq> maxRows (\<lambda>_. 25) ''bob''
     \<and> databasePage_pageCacheKey md5 (\<lambda>_. 25) '''' ''carol'' ''db'' ''t''
          \<noteq> databasePage_pageCacheKey md5 (\<lambda>_. 25) ''bob'' ''carol'' ''db'' ''t''
     \<and> tableView_jsonCacheKey md5 (\<lambda>_. 25) '''' ''carol'' ''db'' ''t''
          \<noteq> tableView_jsonCacheKey md5 (\<lambda>_. 25) ''bob'' ''carol'' ''db'' ''t''
     \<and> ''bob'' \<noteq> '''' \<and> maxRows (\<lambda>_. 25) ''bob'' = 25"
    by (simp add: maxRows_def)
qed

text \<open>
  C1, as the code has it. Against one owner's database, the key the owner's request
  builds differs from the key any other viewer's request builds: for the rendered payload
  of \<open>databasePage\<close>, \<open>visData\<close> and \<open>tableViewHandler\<close> always, and for the resolved
  location of \<open>tableViewHandler\<close> when the owner is not named \<open>pub\<close>. Two viewers who are
  both not the owner build the same keys (up to the row limit appended to the rendered
  key): the viewer's name is not part of the public key. The keys are functions of the
  arguments listed, so the same request always builds the same key.
\<close>

theorem owner_key_differs_from_public_key:
  "(viewer \<noteq> owner \<longrightarrow>
      databasePage_pageCacheKey md5 pref owner owner db t
        \<noteq> databasePage_pageCacheKey md5 pref' viewer owner db t
      \<and> visData_pageCacheKey md5 owner owner db t xCol yCol wCol wType wVal
        \<noteq> visData_pageCacheKey md5 viewer owner db t xCol yCol wCol wType wVal
      \<and> tableView_jsonCacheKey md5 pref owner owner db t
        \<noteq> tableView_jsonCacheKey md5 pref' viewer owner db t
      \<and> (owner \<noteq> ''pub'' \<longrightarrow>
           tableView_queryCacheKey md5 owner owner db \<noteq> tableView_queryCacheKey md5 viewer owner db))
   \<and> (viewer \<noteq> owner \<and> viewer' \<noteq> owner \<longrightarrow>
      databasePage_cacheKey md5 viewer owner db t = databasePage_cacheKey md5 viewer' owner db t
      \<and> visData_pageCacheKey md5 viewer owner db t xCol yCol wCol wType wVal
        = visData_pageCacheKey md5 viewer' owner db t xCol yCol wCol wType wVal
      \<and> tableView_cacheKey md5 viewer owner db t = tableView_cacheKey md5 viewer' owner db t
      \<and> tableView_queryCacheKey md5 viewer owner db = tableView_queryCacheKey md5 viewer' owner db)"
proof -
  have 1: "databasePage_pageCacheKey md5 pref owner owner db t
        \<noteq> databasePage_pageCacheKey md5 pref' viewer owner db t" if "viewer \<noteq> owner"
    using that
    by (simp add: databasePage_pageCacheKey_def databasePage_cacheKey_def hex_slash_ne_p)
  have 2: "visData_pageCacheKey md5 owner owner db t xCol yCol wCol wType wVal
        \<noteq> visData_pageCacheKey md5 viewer owner db t xCol yCol wCol wType wVal" if "viewer \<noteq> owner"
    using that
    by (simp add: visData_pageCacheKey_def hex_ne_p)
  have 3: "tableView_jsonCacheKey md5 pref owner owner db t
        \<noteq> tableView_jsonCacheKey md5 pref' viewer owner db t" if "viewer \<noteq> owner"
    using that
    by (simp add: tableView_jsonCacheKey_def tableView_cacheKey_def hex_slash_ne_p)
  have 4: "tableView_queryCacheKey md5 owner owner db \<noteq> tableView_queryCacheKey md5 viewer owner db"
    if "viewer \<noteq> owner" "owner \<noteq> ''pub''"
    using that
    by (auto simp: tableView_queryCacheKey_def dest: hex_slash_pub)
  have 5: "databasePage_cacheKey md5 viewer owner db t = databasePage_cacheKey md5 viewer' owner db t
      \<and> visData_pageCacheKey md5 viewer owner db t xCol yCol wCol wType wVal
        = visData_pageCacheKey md5 viewer' owner db t xCol yCol wCol wType wVal
      \<and> tableView_cacheKey md5 viewer owner db t = tableView_cacheKey md5 viewer' owner db t
      \<and> tableView_queryCacheKey md5 viewer owner db = tableView_queryCacheKey md5 viewer' owner db"
    if "viewer \<noteq> owner" "viewer' \<noteq> owner"
    using that
    by (simp add: databasePage_cacheKey_def visData_pageCacheKey_def tableView_cacheKey_def
        tableView_queryCacheKey_def)
  from 1 2 3 4 5 show ?thesis by blast
qed

theorem owner_key_differs_from_public_key_witness:
  "\<forall>md5. ''bob'' \<noteq> ''carol'' \<and> ''alice'' \<noteq> ''carol'' \<and> ''carol'' \<noteq> ''pub''
     \<and> databasePage_pageCacheKey md5 (\<lambda>_. 25) ''carol'' ''carol'' ''db'' ''t''
          \<noteq> databasePage_pageCacheKey md5 (\<lambda>_. 25) ''bob'' ''carol'' ''db'' ''t''
     \<and> visData_pageCacheKey md5 ''carol'' ''carol'' ''db'' ''t'' ''x'' ''y'' [] [] []
          \<noteq> visData_pageCacheKey md5 ''bob'' ''carol'' ''db'' ''t'' ''x'' ''y'' [] [] []
     \<and> tableView_jsonCacheKey md5 (\<lambda>_. 25) ''carol'' ''carol'' ''db'' ''t''
          \<noteq> tableView_jsonCacheKey md5 (\<lambda>_. 25) ''bob'' ''carol'' ''db'' ''t''
     \<and> tableView_queryCacheKey md5 ''carol'' ''carol'' ''db''
          \<noteq> tableView_queryCacheKey md5 ''bob'' ''carol'' ''db''
     \<and> tableView_queryCacheKey md5 ''bob'' ''carol'' ''db''
          = tableView_queryCacheKey md5 ''alice'' ''carol'' ''db''"
proof
  fix md5 :: digest
  have ne: "''bob'' \<noteq> ''carol''" "''alice'' \<noteq> ''carol''" "''carol'' \<noteq> ''pub''"
    by simp_all
  from owner_key_differs_from_public_key
         [of "''bob''" "''carol''" md5 "\<lambda>_. 25" "''db''" "''t''" "\<lambda>_. 25" "''x''" "''y''"
             "[]" "[]" "[]" "''alice''"] ne
  show "''bob'' \<noteq> ''carol'' \<and> ''alice'' \<noteq> ''carol'' \<and> ''carol'' \<noteq> ''pub''
     \<and> databasePage_pageCacheKey md5 (\<lambda>_. 25) ''carol'' ''carol'' ''db'' ''t''
          \<noteq> databasePage_pageCacheKey md5 (\<lambda>_. 25) ''bob'' ''carol'' ''db'' ''t''
     \<and> visData_pageCacheKey md5 ''carol'' ''carol'' ''db'' ''t'' ''x'' ''y'' [] [] []
          \<noteq> visData_pageCacheKey md5 ''bob'' ''carol'' ''db'' ''t'' ''x'' ''y'' [] [] []
     \<and> tableView_jsonCacheKey md5 (\<lambda>_. 25) ''carol'' ''carol'' ''db'' ''t''
          \<noteq> tableView_jsonCacheKey md5 (\<lambda>_. 25) ''bob'' ''carol'' ''db'' ''t''
     \<and> tableView_queryCacheKey md5 ''carol'' ''carol'' ''db''
          \<noteq> tableView_queryCacheKey md5 ''bob'' ''carol'' ''db''
     \<and> tableView_queryCacheKey md5 ''bob'' ''carol'' ''db''
          = tableView_queryCacheKey md5 ''alice'' ''carol'' ''db''"
    by blast
qed

text \<open>
  C1, as stated, fails: two viewers, neither of them the owner, who ask for the same
  table of a third user's database build the same keys, for every digest function.
\<close>

theorem viewers_share_public_key:
  "\<forall>md5.
     visData_pageCacheKey md5 ''alice'' ''carol'' ''private.db'' ''t'' [] [] [] [] []
       = visData_pageCacheKey md5 ''bob'' ''carol'' ''private.db'' ''t'' [] [] [] [] []
     \<and> tableView_queryCacheKey md5 ''alice'' ''carol'' ''private.db''
       = tableView_queryCacheKey md5 ''bob'' ''carol'' ''private.db''
     \<and> tableView_jsonCacheKey md5 (\<lambda>_. 25) ''alice'' ''carol'' ''private.db'' ''t''
       = tableView_jsonCacheKey md5 (\<lambda>_. 25) ''bob'' ''carol'' ''private.db'' ''t''
     \<and> databasePage_pageCacheKey md5 (\<lambda>_. 25) ''alice'' ''carol'' ''private.db'' ''t''
       = databasePage_pageCacheKey md5 (\<lambda>_. 25) ''bob'' ''carol'' ''private.db'' ''t''"
  by (simp add: visData_pageCacheKey_def tableView_queryCacheKey_def tableView_jsonCacheKey_def
      tableView_cacheKey_def databasePage_pageCacheKey_def databasePage_cacheKey_def maxRows_def)

section \<open>The filter operator of \<open>visData\<close>\<close>

lemma where_type_None:
  "where_type op = None \<longleftrightarrow> op \<noteq> '''' \<and> op \<notin> {''='', ''!='', ''<'', ''<='', ''>'', ''>='', ''LIKE''}"
  by (auto simp: where_type_def)

text \<open>
  C9, as the code has it. A request to \<open>visData\<close> whose filter operator is not empty and
  not one of the seven operators (equal, not equal, the four comparisons, \<open>LIKE\<close>)
  performs no read and caches nothing. When the URL parses, the handler writes nothing
  at all: the failure is logged and the client gets an empty response, not an error
  page. (When the URL does not parse, the error page for that failure is sent first.)
\<close>

theorem visData_invalid_operator:
  assumes "FormValue r ''wheretype'' \<noteq> ''''"
    and "FormValue r ''wheretype'' \<notin> {''='', ''!='', ''<'', ''<='', ''>'', ''>='', ''LIKE''}"
  shows "oc_reads (visData svc r) = [] \<and> oc_cached (visData svc r) = []
     \<and> (case url_ODTV r of
           Inl err \<Rightarrow> oc_response (visData svc r) = ErrorPage StatusBadRequest err
         | Inr _ \<Rightarrow> oc_response (visData svc r) = NoResponse)"
proof -
  from assms have wt: "where_type (FormValue r ''wheretype'') = None"
    by (simp add: where_type_None)
  show ?thesis
    by (cases "url_ODTV r") (auto simp: visData_def Let_def reply_def wt)
qed

theorem visData_invalid_operator_witness:
  "\<forall>svc. FormValue (example_request None ''t'' (\<lambda>k. if k = ''wheretype'' then ''DROP'' else '''')) ''wheretype'' \<noteq> ''''
    \<and> oc_reads (visData svc (example_request None ''t'' (\<lambda>k. if k = ''wheretype'' then ''DROP'' else ''''))) = []
    \<and> oc_response (visData svc (example_request None ''t'' (\<lambda>k. if k = ''wheretype'' then ''DROP'' else ''''))) = NoResponse"
proof
  fix svc
  let ?r = "example_request None ''t'' (\<lambda>k. if k = ''wheretype'' then ''DROP'' else '''')"
  have a: "FormValue ?r ''wheretype'' \<noteq> ''''" by (simp add: example_request_def)
  have b: "FormValue ?r ''wheretype'' \<notin> {''='', ''!='', ''<'', ''<='', ''>'', ''>='', ''LIKE''}"
    by (simp add: example_request_def)
  from visData_invalid_operator[OF a b, of svc]
  show "FormValue ?r ''wheretype'' \<noteq> '''' \<and> oc_reads (visData svc ?r) = []
    \<and> oc_response (visData svc ?r) = NoResponse"
    using a by (simp add: example_request_def)
qed

text \<open>
  C9, as stated, fails: for the operator \<open>DROP\<close> the response is not an error page with
  status 400 but nothing.
\<close>

theorem invalid_operator_gets_no_BadRequest:
  "\<forall>svc. oc_response (visData svc
       (example_request None ''t'' (\<lambda>k. if k = ''wheretype'' then ''DROP'' else '''')))
     = NoResponse"
  by (simp add: visData_def example_request_def where_type_def reply_def Let_def)

section \<open>Table names that are not in the file\<close>

text \<open>
  C2. \<open>visData\<close> looks the requested table up in the list of tables, and then passes the
  name as requested to the read function, found or not: for the table \<open>nosuch\<close> of a
  file whose only table is \<open>t\<close>, the read function is called with \<open>nosuch\<close>.
\<close>

theorem visData_reads_unlisted_table:
  "conn_Tables (example_conn rows) = Inr [''t'']
   \<and> oc_reads (visData (example_services md5 rows) (example_request None ''nosuch'' (\<lambda>_. '''')))
     = [Call_ReadSQLiteDB ''nosuch'' 2500]"
  by (simp add: visData_def example_request_def example_services_def where_type_def reply_def
      Let_def example_conn_def loggedInUser_of_def cached_bytes_def example_read_def)

section \<open>The empty result of \<open>tableViewHandler\<close>\<close>

text \<open>
  C8. For a table without rows the body of the response is an opening brace followed by
  a closing square bracket, in both source files: the brackets do not match.
\<close>

theorem empty_result_marker:
  "oc_response (tableViewHandler (example_services md5 []) example_pg
                  (example_request None ''t'' (\<lambda>_. '''')))
     = Body ''{]''
   \<and> oc_response (tableViewHandler_001 (example_services md5 [])
                  (example_request None ''t'' (\<lambda>_. '''')))
     = Body ''{]''
   \<and> \<not> balanced ''{]''"
  by (simp add: tableViewHandler_def tableView_serve_def tableView_locate_def tableView_query_def
      tableViewHandler_001_def QueryRow_public_def
      ver_join_db_def requested_db_def scan_minioInfo_def example_pg_def
      example_request_def example_services_def reply_def outcome_of_def
      Let_def example_conn_def loggedInUser_of_def cached_bytes_def
      cached_minioInfo_def example_read_def sql_limit_def maxRows_def balanced_def)

section \<open>Version selection\<close>

lemma order_None: "order_by_version_desc_limit_1 rows = None \<longleftrightarrow> rows = []"
  by (induction rows) (auto split: option.splits)

lemma order_Some:
  "order_by_version_desc_limit_1 rows = Some best \<Longrightarrow>
     best \<in> set rows \<and> (\<forall>row \<in> set rows. ver_version (fst row) \<le> ver_version (fst best))"
proof (induction rows arbitrary: best)
  case Nil
  then show ?case by simp
next
  case (Cons row rows)
  show ?case
  proof (cases "order_by_version_desc_limit_1 rows")
    case None
    then have "rows = []" by (simp add: order_None)
    with Cons.prems show ?thesis by simp
  next
    case (Some b)
    from Cons.IH[OF Some] have b: "b \<in> set rows"
      "\<forall>row \<in> set rows. ver_version (fst row) \<le> ver_version (fst b)" by auto
    show ?thesis
    proof (cases "ver_version (fst row) < ver_version (fst b)")
      case True
      with Some Cons.prems have "best = b" by simp
      with b True show ?thesis by auto
    next
      case False
      with Some Cons.prems have "best = row" by simp
      with b False show ?thesis by fastforce
    qed
  qed
qed

lemma set_ver_join_db:
  "set (ver_join_db store owner n) =
     {(ver, d). ver \<in> set (database_versions store) \<and> d \<in> set (sqlite_databases store)
        \<and> db_username d = owner \<and> db_dbname d = n \<and> ver_db ver = db_idnum d}"
  by (auto simp: ver_join_db_def requested_db_def)

lemma visible_versions_eq:
  "visible_versions store viewer owner n =
     (if viewer \<noteq> owner
      then set (filter (\<lambda>(ver, d). ver_public ver = True) (ver_join_db store owner n))
      else set (ver_join_db store owner n))"
  by (auto simp: visible_versions_def set_ver_join_db)

lemma tableView_query_eq:
  "tableView_query store viewer owner n =
     scan_minioInfo (order_by_version_desc_limit_1
       (if viewer \<noteq> owner
        then filter (\<lambda>(ver, d). ver_public ver = True) (ver_join_db store owner n)
        else ver_join_db store owner n))"
  by (simp add: tableView_query_def QueryRow_public_def QueryRow_owner_def)

text \<open>
  C4. With no version asked for, the query \<open>tableViewHandler\<close> runs selects, for the owner,
  a version of the database that no other version exceeds, and for any other viewer a
  public version that no other public version exceeds; when no version qualifies it
  selects nothing. On a cache miss that is the location the handler goes on with, and
  when there is none the handler returns without a read and without a location.
\<close>

theorem latest_visible_version:
  "(visible_versions store viewer owner n = {} \<longrightarrow>
      tableView_query store viewer owner n = None)
   \<and> (visible_versions store viewer owner n \<noteq> {} \<longrightarrow>
        (\<exists>ver d. (ver, d) \<in> visible_versions store viewer owner n
           \<and> tableView_query store viewer owner n = Some (db_minio_bucket d, ver_minioid ver)
           \<and> (\<forall>(ver', d') \<in> visible_versions store viewer owner n.
                 ver_version ver' \<le> ver_version ver)))
   \<and> (cached_minioInfo (GetCachedData svc (tableView_queryCacheKey (md5_Sum svc) viewer owner n))
         = None \<longrightarrow>
        fst (tableView_locate svc store viewer owner n) = tableView_query store viewer owner n)
   \<and> (url_ODTV r = Inr (owner, n, tbl, v) \<and> loggedInUser_of r = viewer
        \<and> fst (tableView_locate svc store viewer owner n) = None \<longrightarrow>
        tableViewHandler svc store r = reply NoResponse)"
proof -
  let ?rows = "if viewer \<noteq> owner
        then filter (\<lambda>(ver, d). ver_public ver = True) (ver_join_db store owner n)
        else ver_join_db store owner n"
  have vis: "visible_versions store viewer owner n = set ?rows"
    by (simp add: visible_versions_eq)
  have q: "tableView_query store viewer owner n
             = scan_minioInfo (order_by_version_desc_limit_1 ?rows)"
    by (rule tableView_query_eq)
  have 1: "tableView_query store viewer owner n = None"
    if "visible_versions store viewer owner n = {}"
  proof -
    from that vis have "?rows = []" by simp
    then show ?thesis unfolding q by (simp add: scan_minioInfo_def)
  qed
  have 2: "\<exists>ver d. (ver, d) \<in> visible_versions store viewer owner n
           \<and> tableView_query store viewer owner n = Some (db_minio_bucket d, ver_minioid ver)
           \<and> (\<forall>(ver', d') \<in> visible_versions store viewer owner n.
                 ver_version ver' \<le> ver_version ver)"
    if "visible_versions store viewer owner n \<noteq> {}"
  proof -
    from that vis have "?rows \<noteq> []" by auto
    then obtain best where best: "order_by_version_desc_limit_1 ?rows = Some best"
      using order_None[of ?rows] by (cases "order_by_version_desc_limit_1 ?rows") auto
    obtain ver d where vd: "best = (ver, d)" by (cases best)
    from order_Some[OF best] vd have
      "(ver, d) \<in> set ?rows" "\<forall>row \<in> set ?rows. ver_version (fst row) \<le> ver_version ver"
      by auto
    moreover have "tableView_query store viewer owner n = Some (db_minio_bucket d, ver_minioid ver)"
      unfolding q best vd by (simp add: scan_minioInfo_def)
    ultimately show ?thesis unfolding vis by fastforce
  qed
  have 3: "fst (tableView_locate svc store viewer owner n) = tableView_query store viewer owner n"
    if "cached_minioInfo (GetCachedData svc (tableView_queryCacheKey (md5_Sum svc) viewer owner n))
         = None"
    using that by (auto simp: tableView_locate_def Let_def split: option.splits)
  have 4: "tableViewHandler svc store r = reply NoResponse"
    if "url_ODTV r = Inr (owner, n, tbl, v)" "loggedInUser_of r = viewer"
       "fst (tableView_locate svc store viewer owner n) = None"
    using that
    by (cases "tableView_locate svc store viewer owner n") (simp add: tableViewHandler_def Let_def)
  from 1 2 3 4 show ?thesis by blast
qed

theorem latest_visible_version_witness:
  "\<forall>md5.
     visible_versions example_pg ''bob'' ''carol'' ''db'' \<noteq> {}
     \<and> tableView_query example_pg ''bob'' ''carol'' ''db'' = Some (''bkt'', ''v1.db'')
     \<and> tableView_query example_pg ''carol'' ''carol'' ''db'' = Some (''bkt'', ''v2.db'')
     \<and> visible_versions example_pg ''bob'' ''carol'' ''other.db'' = {}
     \<and> tableView_query example_pg ''bob'' ''carol'' ''other.db'' = None
     \<and> tableViewHandler (example_services md5 []) example_pg
          \<lparr>session_UserName = Some ''bob'', url_ODTV = Inr (''carol'', ''other.db'', ''t'', 0),
           FormValue = (\<lambda>_. '''')\<rparr>
         = reply NoResponse"
proof
  fix md5 :: digest
  let ?svc = "example_services md5 []"
  let ?r = "\<lparr>session_UserName = Some ''bob'', url_ODTV = Inr (''carol'', ''other.db'', ''t'', 0),
             FormValue = (\<lambda>_. '''')\<rparr>"
  have e: "visible_versions example_pg ''bob'' ''carol'' ''other.db'' = {}"
    by (auto simp: visible_versions_def example_pg_def)
  have ne: "visible_versions example_pg ''bob'' ''carol'' ''db'' \<noteq> {}"
    by (simp add: visible_versions_eq ver_join_db_def requested_db_def example_pg_def)
  have miss: "cached_minioInfo (GetCachedData ?svc
                (tableView_queryCacheKey (md5_Sum ?svc) ''bob'' ''carol'' ''other.db'')) = None"
    by (simp add: example_services_def cached_minioInfo_def)
  have req: "url_ODTV ?r = Inr (''carol'', ''other.db'', ''t'', 0)" "loggedInUser_of ?r = ''bob''"
    by (simp_all add: loggedInUser_of_def)
  note inst = latest_visible_version[of example_pg "''bob''" "''carol''" "''other.db''" ?svc ?r
      "''t''" 0]
  from inst e have none: "tableView_query example_pg ''bob'' ''carol'' ''other.db'' = None"
    by blast
  from inst miss none
  have "fst (tableView_locate ?svc example_pg ''bob'' ''carol'' ''other.db'') = None"
    by simp
  with inst req have handler: "tableViewHandler ?svc example_pg ?r = reply NoResponse"
    by blast
  have pub: "tableView_query example_pg ''bob'' ''carol'' ''db'' = Some (''bkt'', ''v1.db'')"
    by (simp add: tableView_query_def QueryRow_public_def ver_join_db_def requested_db_def
        scan_minioInfo_def example_pg_def)
  have own: "tableView_query example_pg ''carol'' ''carol'' ''db'' = Some (''bkt'', ''v2.db'')"
    by (simp add: tableView_query_def QueryRow_owner_def ver_join_db_def requested_db_def
        scan_minioInfo_def example_pg_def)
  from ne pub own e none handler
  show "visible_versions example_pg ''bob'' ''carol'' ''db'' \<noteq> {}
     \<and> tableView_query example_pg ''bob'' ''carol'' ''db'' = Some (''bkt'', ''v1.db'')
     \<and> tableView_query example_pg ''carol'' ''carol'' ''db'' = Some (''bkt'', ''v2.db'')
     \<and> visible_versions example_pg ''bob'' ''carol'' ''other.db'' = {}
     \<and> tableView_query example_pg ''bob'' ''carol'' ''other.db'' = None
     \<and> tableViewHandler ?svc example_pg ?r = reply NoResponse"
    by blast
qed

section \<open>Cell decoding\<close>

lemma Itoa_negative: "0 < i \<Longrightarrow> Itoa (- i) = CHR ''-'' # Itoa i"
  by (simp add: Itoa_def)

lemma Itoa_neg_Suc: "Itoa (- (int k + 1)) = CHR ''-'' # Itoa (int k + 1)"
  by (rule Itoa_negative) simp

lemma atoi_Itoa: "atoi_nat (Itoa (int k)) = k"
  by (simp add: Itoa_def atoi_formatBits)

lemma databasePage_cell_values:
  "databasePage_cell c (sqlite_Integer i False False) = [\<lparr>Name = c, Type = Integer, Value = Itoa i\<rparr>]
   \<and> databasePage_cell c (sqlite_Float f False False)
        = [\<lparr>Name = c, Type = Float, Value = FormatFloat f\<rparr>]
   \<and> databasePage_cell c (sqlite_Text s False) = [\<lparr>Name = c, Type = Text, Value = s\<rparr>]
   \<and> databasePage_cell c (sqlite_Blob payload False)
        = [\<lparr>Name = c, Type = Binary, Value = ''<i>BINARY DATA</i>''\<rparr>]
   \<and> databasePage_cell c sqlite_Null = [\<lparr>Name = c, Type = Null, Value = ''<i>NULL</i>''\<rparr>]"
  by (simp add: databasePage_cell_def Sprintf_d_def)

lemma databasePage_cell_nulls:
  "databasePage_cell c (sqlite_Integer i True failed) = databasePage_cell c sqlite_Null
   \<and> databasePage_cell c (sqlite_Float f True failed) = databasePage_cell c sqlite_Null
   \<and> databasePage_cell c (sqlite_Text s True) = databasePage_cell c sqlite_Null
   \<and> databasePage_cell c (sqlite_Blob payload True) = databasePage_cell c sqlite_Null
   \<and> databasePage_cell c (sqlite_Integer i False True) = []
   \<and> databasePage_cell c (sqlite_Float f False True) = []"
  by (simp add: databasePage_cell_def)

lemma downloadCSV_cell_values:
  "downloadCSV_cell (sqlite_Integer i False False) = [Itoa i]
   \<and> downloadCSV_cell (sqlite_Float f False False) = [FormatFloat f]
   \<and> downloadCSV_cell (sqlite_Text s False) = [s]
   \<and> downloadCSV_cell (sqlite_Blob payload False) = [base64_EncodeToString payload]
   \<and> downloadCSV_cell sqlite_Null = [''NULL'']
   \<and> downloadCSV_cell (sqlite_Integer i True failed) = [''NULL'']
   \<and> downloadCSV_cell (sqlite_Float f True failed) = [''NULL'']
   \<and> downloadCSV_cell (sqlite_Text s True) = [''NULL'']
   \<and> downloadCSV_cell (sqlite_Blob payload True) = [''NULL'']
   \<and> downloadCSV_cell (sqlite_Integer i False True) = []
   \<and> downloadCSV_cell (sqlite_Float f False True) = []"
  by (simp add: downloadCSV_cell_def Sprintf_d_def)

text \<open>
  C5, as the code has it. In \<open>databasePage\<close> a field whose scan returns a value becomes:
  for an integer its decimal string (\<open>Itoa\<close>, which reads back as the number and writes a
  minus sign before a negative one); for a float the string of \<open>FormatFloat\<close>, which has
  exactly four decimals when the value is finite and is \<open>+Inf\<close>, \<open>-Inf\<close> or \<open>NaN\<close>
  otherwise; for a text the text; for a binary field the fixed marker, whatever the
  payload. A field of type NULL, and a field of any type whose scan reports a null,
  becomes the null marker with the type \<open>Null\<close>, so that it differs from every text field
  by its type. A field whose integer or float scan fails without a null adds nothing to
  the row. In the CSV export integers, floats and texts are the same strings, but a
  binary field is its payload in base64, and a null is the bare string \<open>NULL\<close>.
\<close>

theorem cell_decoding:
  "databasePage_cell c (sqlite_Integer i False False) = [\<lparr>Name = c, Type = Integer, Value = Itoa i\<rparr>]
   \<and> atoi_nat (Itoa (int k)) = k
   \<and> Itoa (- (int k + 1)) = CHR ''-'' # Itoa (int k + 1)
   \<and> databasePage_cell c (sqlite_Float f False False)
        = [\<lparr>Name = c, Type = Float, Value = FormatFloat f\<rparr>]
   \<and> (float_exp f \<noteq> 2047 \<longrightarrow> fixed4 (FormatFloat f))
   \<and> (float_exp f = 2047 \<longrightarrow> FormatFloat f \<in> {''+Inf'', ''-Inf'', ''NaN''})
   \<and> databasePage_cell c (sqlite_Text s False) = [\<lparr>Name = c, Type = Text, Value = s\<rparr>]
   \<and> databasePage_cell c (sqlite_Blob payload False)
        = [\<lparr>Name = c, Type = Binary, Value = ''<i>BINARY DATA</i>''\<rparr>]
   \<and> databasePage_cell c sqlite_Null = [\<lparr>Name = c, Type = Null, Value = ''<i>NULL</i>''\<rparr>]
   \<and> databasePage_cell c (sqlite_Integer i True failed) = databasePage_cell c sqlite_Null
   \<and> databasePage_cell c (sqlite_Float f True failed) = databasePage_cell c sqlite_Null
   \<and> databasePage_cell c (sqlite_Text s True) = databasePage_cell c sqlite_Null
   \<and> databasePage_cell c (sqlite_Blob payload True) = databasePage_cell c sqlite_Null
   \<and> databasePage_cell c (sqlite_Integer i False True) = []
   \<and> databasePage_cell c (sqlite_Float f False True) = []
   \<and> databasePage_cell c sqlite_Null \<noteq> databasePage_cell c (sqlite_Text s False)
   \<and> map Type (databasePage_cell c sqlite_Null)
        \<noteq> map Type (databasePage_cell c (sqlite_Text s False))
   \<and> downloadCSV_cell (sqlite_Integer i False False) = [Itoa i]
   \<and> downloadCSV_cell (sqlite_Float f False False) = [FormatFloat f]
   \<and> downloadCSV_cell (sqlite_Text s False) = [s]
   \<and> downloadCSV_cell (sqlite_Blob payload False) = [base64_EncodeToString payload]
   \<and> downloadCSV_cell sqlite_Null = [''NULL'']
   \<and> downloadCSV_cell (sqlite_Integer i True failed) = [''NULL'']
   \<and> downloadCSV_cell (sqlite_Float f True failed) = [''NULL'']
   \<and> downloadCSV_cell (sqlite_Text s True) = [''NULL'']
   \<and> downloadCSV_cell (sqlite_Blob payload True) = [''NULL'']
   \<and> downloadCSV_cell (sqlite_Integer i False True) = []
   \<and> downloadCSV_cell (sqlite_Float f False True) = []"
proof -
  note page = databasePage_cell_values[of c i f s payload]
  note nulls = databasePage_cell_nulls[of c i failed f s payload]
  note csv = downloadCSV_cell_values[of i f s payload failed]
  have differ: "databasePage_cell c sqlite_Null \<noteq> databasePage_cell c (sqlite_Text s False)
     \<and> map Type (databasePage_cell c sqlite_Null)
        \<noteq> map Type (databasePage_cell c (sqlite_Text s False))"
    by (simp add: databasePage_cell_def)
  from page nulls csv differ atoi_Itoa[of k] Itoa_neg_Suc[of k]
    FormatFloat_fixed4[of f] FormatFloat_special[of f]
  show ?thesis by blast
qed

theorem cell_decoding_witness:
  "float_exp 0x3FF8000000000000 \<noteq> 2047
   \<and> fixed4 (FormatFloat 0x3FF8000000000000)
   \<and> databasePage_cell ''a'' (sqlite_Float 0x3FF8000000000000 False False)
        = [\<lparr>Name = ''a'', Type = Float, Value = ''1.5000''\<rparr>]
   \<and> float_exp 0xFFF0000000000000 = 2047
   \<and> FormatFloat 0xFFF0000000000000 \<in> {''+Inf'', ''-Inf'', ''NaN''}
   \<and> databasePage_cell ''a'' (sqlite_Blob [] True)
        = [\<lparr>Name = ''a'', Type = Null, Value = ''<i>NULL</i>''\<rparr>]"
proof -
  have finite: "float_exp 0x3FF8000000000000 \<noteq> 2047" by (simp add: float_exp_def)
  have special: "float_exp 0xFFF0000000000000 = 2047" by (simp add: float_exp_def)
  note one = cell_decoding[of "''a''" 0 0 "0x3FF8000000000000" "''''" "[]" False]
  note inf = cell_decoding[of "''a''" 0 0 "0xFFF0000000000000" "''''" "[]" False]
  from one finite have a: "fixed4 (FormatFloat 0x3FF8000000000000)" by blast
  from one have b: "databasePage_cell ''a'' (sqlite_Float 0x3FF8000000000000 False False)
        = [\<lparr>Name = ''a'', Type = Float, Value = FormatFloat 0x3FF8000000000000\<rparr>]" by blast
  from inf special have c: "FormatFloat 0xFFF0000000000000 \<in> {''+Inf'', ''-Inf'', ''NaN''}"
    by blast
  from one have d: "databasePage_cell ''a'' (sqlite_Blob [] True)
        = [\<lparr>Name = ''a'', Type = Null, Value = ''<i>NULL</i>''\<rparr>]" by simp
  from finite a b special c d FormatFloat_examples show ?thesis by simp
qed

text \<open>
  C5, as stated, fails. In the CSV export the payload of a binary field is written into
  the output, and a NULL field is the same string as the text \<open>NULL\<close>. On the page an
  infinite float is written \<open>+Inf\<close>, which has no decimals.
\<close>

theorem csv_inlines_blob_and_null:
  "downloadCSV_cell (sqlite_Blob [0x68, 0x69] False) = [''aGk='']
   \<and> downloadCSV_cell (sqlite_Blob [0x68, 0x6f] False) = [''aG8='']
   \<and> downloadCSV_cell sqlite_Null = downloadCSV_cell (sqlite_Text ''NULL'' False)
   \<and> databasePage_cell ''a'' (sqlite_Float 0x7FF0000000000000 False False)
        = [\<lparr>Name = ''a'', Type = Float, Value = ''+Inf''\<rparr>]
   \<and> \<not> fixed4 ''+Inf''"
proof -
  have inf: "FormatFloat 0x7FF0000000000000 = ''+Inf''"
    by (simp add: FormatFloat_def float_exp_def float_mant_def float_sign_def)
  have "\<not> fixed4 ''+Inf''" by (simp add: fixed4_def is_digit_def)
  with inf show ?thesis
    by (simp add: downloadCSV_cell_def databasePage_cell_def sextet_def encodeStd_def Let_def)
qed

section \<open>Row limits\<close>










text \<open>
  The name of the table is pasted into the text as it is listed. For a file that lists a
  table under the name shown, the statement \<open>databasePage\<close> prepares for a viewer who
  asks for no table has its \<open>LIMIT\<close> behind the two dashes.
\<close>

lemma table_name_is_pasted:
  assumes "session_UserName r = None"
    and "CheckUserDBAccess svc '''' userName dbName = Inr dbInfo"
    and "GetCachedData svc (databasePage_pageCacheKey (md5_Sum svc) (PrefUserMaxRows svc)
           '''' userName dbName '''') = None"
    and "OpenMinioObject svc (MinioBkt dbInfo) (MinioId dbInfo) = Inr db"
    and "conn_Tables db = Inr [''[u] WHERE ?1 OR 1 --'', ''u'']"
  shows "oc_reads (databasePage svc r userName dbName '''')
           = [Call_Select ''SELECT * FROM [u] WHERE ?1 OR 1 -- LIMIT ?'' [10]]"
  using assms
  by (simp add: databasePage_def Let_def reply_def outcome_of_def loggedInUser_of_def
      cached_page_def maxRows_def split: select_result.split option.split)




section \<open>Uploads\<close>

lemma upload_commit_shape:
  assumes "upload_commit env s loggedInUser isPublic tempBuf dbName contentType = Some (resp, effs)"
  shows "effs = []
     \<or> (\<exists>bucket objId content. effs = [StoreMinioObject bucket objId content])
     \<or> (\<exists>bucket objId content row. effs = [StoreMinioObject bucket objId content, AddDatabase row]
          \<and> md_bucket row = bucket \<and> md_minioid row = objId
          \<and> md_owner row = loggedInUser
          \<and> md_version row = newVer_of (lookup_highVer env s (md_owner row) (md_dbname row)))"
  using assms
  by (auto simp: upload_commit_def Let_def split: option.splits sum.splits if_splits)

lemma upload_effects_shape:
  assumes "uploadDataHandler env s r = Some (resp, effs)"
  shows "effs = []
     \<or> (\<exists>bucket objId content. effs = [StoreMinioObject bucket objId content])
     \<or> (\<exists>bucket objId content row. effs = [StoreMinioObject bucket objId content, AddDatabase row]
          \<and> md_bucket row = bucket \<and> md_minioid row = objId
          \<and> up_session r = Some (md_owner row)
          \<and> md_version row = newVer_of (lookup_highVer env s (md_owner row) (md_dbname row)))"
proof (cases "\<exists>u p t n c. up_session r = Some u
    \<and> upload_commit env s u p t n c = Some (resp, effs)")
  case True
  then obtain u p t n c where u: "up_session r = Some u"
    and c: "upload_commit env s u p t n c = Some (resp, effs)" by blast
  from upload_commit_shape[OF c] u show ?thesis by auto
next
  case False
  with assms have "effs = []"
    by (auto simp: uploadDataHandler_def Let_def split: option.splits sum.splits if_splits)
  then show ?thesis by simp
qed

lemma example_upload_result:
  "lookup_highVer example_env s ''carol'' ''test.db'' = h \<Longrightarrow>
   uploadDataHandler example_env s example_upload
     = Some (UploadSucceeded ''carol'',
             [StoreMinioObject ''bkt'' ''bbbbbbbb.db'' [0x53, 0x51],
              AddDatabase (example_row (newVer_of h))])"
  by (simp add: uploadDataHandler_def upload_commit_def example_env_def example_upload_def example_row_def
      ParseBool_def example_conn_def Let_def pick_minioID.simps)

lemma no_dangling_step:
  assumes "no_dangling s" "uploadDataHandler env s r = Some (resp, effs)" "k \<le> length effs"
  shows "no_dangling (foldl apply_effect s (take k effs))"
proof -
  from upload_effects_shape[OF assms(2)] consider
      "effs = []"
    | bucket objId content where "effs = [StoreMinioObject bucket objId content]"
    | bucket objId content row where
        "effs = [StoreMinioObject bucket objId content, AddDatabase row]"
        "md_bucket row = bucket" "md_minioid row = objId"
    by blast
  then show ?thesis
  proof cases
    case 1
    with assms(1) show ?thesis by simp
  next
    case 2
    with assms(3) have "k = 0 \<or> k = 1" by auto
    with 2 assms(1) show ?thesis by (auto simp: no_dangling_def)
  next
    case 3
    with assms(3) have "k = 0 \<or> k = 1 \<or> k = 2" by auto
    with 3 assms(1) show ?thesis by (auto simp: no_dangling_def numeral_2_eq_2)
  qed
qed

lemma reachable_no_dangling: "reachable s \<Longrightarrow> no_dangling s"
proof (induction rule: reachable.induct)
  case start
  show ?case by (simp add: no_dangling_def empty_stores_def)
next
  case (upload s env r resp effs k)
  then show ?case by (simp add: no_dangling_step)
qed

lemma in_shape:
  assumes "uploadDataHandler env s r = Some (resp, effs)" "AddDatabase row \<in> set effs"
  shows "\<exists>content. effs = [StoreMinioObject (md_bucket row) (md_minioid row) content, AddDatabase row]"
    and "up_session r = Some (md_owner row)"
    and "md_version row = newVer_of (lookup_highVer env s (md_owner row) (md_dbname row))"
  using upload_effects_shape[OF assms(1)] assms(2) by auto

lemma validation_first:
  assumes "uploadDataHandler env s r = Some (resp, effs)" "fails_validation env r"
  shows "effs = []"
  using assms
  by (auto simp: uploadDataHandler_def fails_validation_def Let_def
      split: option.splits sum.splits prod.splits if_splits)

lemma reachable_example_store1: "reachable example_store1"
proof -
  have h: "lookup_highVer example_env empty_stores ''carol'' ''test.db'' = 0"
    by (simp add: lookup_highVer_def example_env_def HighestDBVersion_def empty_stores_def)
  have "reachable (foldl apply_effect empty_stores
          (take 2 [StoreMinioObject ''bkt'' ''bbbbbbbb.db'' [0x53, 0x51],
                   AddDatabase (example_row (newVer_of 0))]))"
    by (rule reachable.upload[OF reachable.start example_upload_result[OF h]]) simp
  then show ?thesis by (simp add: example_store1_def newVer_of_def)
qed

text \<open>
  C7. In every reachable state each version row refers to an object the object store
  holds. An upload that adds a row has stored the object the row refers to just before,
  and an upload that fails validation writes nothing.
\<close>

theorem object_stored_before_row:
  "(reachable s \<longrightarrow> no_dangling s)
   \<and> (uploadDataHandler env s r = Some (resp, effs) \<and> AddDatabase row \<in> set effs \<longrightarrow>
        (\<exists>content. effs = [StoreMinioObject (md_bucket row) (md_minioid row) content,
                             AddDatabase row]))
   \<and> (uploadDataHandler env s r = Some (resp, effs) \<and> fails_validation env r \<longrightarrow> effs = [])"
  using reachable_no_dangling in_shape(1) validation_first by blast

theorem object_stored_before_row_witness:
  "reachable example_store1 \<and> no_dangling example_store1
   \<and> versions example_store1 = [example_row 1]
   \<and> objects example_store1 (''bkt'', ''bbbbbbbb.db'') = Some [0x53, 0x51]
   \<and> fails_validation (example_env\<lparr>upload_Open := (\<lambda>_. None)\<rparr>) example_upload
   \<and> uploadDataHandler (example_env\<lparr>upload_Open := (\<lambda>_. None)\<rparr>) example_store1 example_upload
       = Some (UploadError StatusInternalServerError ''Internal error'', [])"
proof -
  let ?env = "example_env\<lparr>upload_Open := (\<lambda>_. None)\<rparr>"
  have fv: "fails_validation ?env example_upload"
    by (simp add: fails_validation_def example_env_def example_upload_def)
  have up: "uploadDataHandler ?env example_store1 example_upload
       = Some (UploadError StatusInternalServerError ''Internal error'', [])"
    by (simp add: uploadDataHandler_def example_env_def example_upload_def ParseBool_def)
  from object_stored_before_row[of example_store1] reachable_example_store1
  have "no_dangling example_store1" by blast
  with reachable_example_store1 fv up show ?thesis
    by (simp add: example_store1_def empty_stores_def)
qed

section \<open>The version number of an upload\<close>

lemma wrap_int64_id: "- 9223372036854775808 \<le> x \<Longrightarrow> x \<le> MaxInt64 \<Longrightarrow> wrap_int64 x = x"
  by (simp add: wrap_int64_def MaxInt64_def)

lemma newVer_of_next: "0 < h \<Longrightarrow> h < MaxInt64 \<Longrightarrow> newVer_of h = h + 1"
  using wrap_int64_id[of "h + 1"] by (simp add: newVer_of_def MaxInt64_def)

lemma newVer_of_wraps: "newVer_of MaxInt64 = - 9223372036854775808"
  by (simp add: newVer_of_def wrap_int64_def MaxInt64_def)

lemma foldr_max_Max:
  "\<forall>x \<in> set xs. (1::int) \<le> x \<Longrightarrow> foldr max xs 0 = (if xs = [] then 0 else Max (set xs))"
proof (induction xs)
  case Nil
  show ?case by simp
next
  case (Cons x xs)
  show ?case
  proof (cases "xs = []")
    case True
    with Cons.prems show ?thesis by simp
  next
    case False
    with Cons have "foldr max xs 0 = Max (set xs)" by simp
    with False show ?thesis by simp
  qed
qed

lemma HighestDBVersion_Max:
  assumes "\<forall>row \<in> set (versions s). 1 \<le> md_version row"
  shows "HighestDBVersion s owner n =
           (if existing_versions s owner n = {} then 0 else Max (existing_versions s owner n))"
proof -
  let ?xs = "[md_version row. row \<leftarrow> versions s, md_owner row = owner \<and> md_dbname row = n]"
  have set_xs: "set ?xs = existing_versions s owner n"
    by (auto simp: existing_versions_def)
  from assms have "\<forall>x \<in> set ?xs. 1 \<le> x" by auto
  from foldr_max_Max[OF this] set_xs show ?thesis
    by (auto simp: HighestDBVersion_def)
qed

lemma finite_existing: "finite (existing_versions s owner n)"
proof -
  have "existing_versions s owner n \<subseteq> md_version ` set (versions s)"
    by (auto simp: existing_versions_def)
  then show ?thesis by (rule finite_subset) simp
qed

lemma newVer_of_Highest:
  assumes "\<forall>row \<in> set (versions s). 1 \<le> md_version row"
    and "HighestDBVersion s owner n < MaxInt64"
  shows "newVer_of (HighestDBVersion s owner n) =
           (if existing_versions s owner n = {} then 1 else Max (existing_versions s owner n) + 1)"
proof (cases "existing_versions s owner n = {}")
  case True
  with HighestDBVersion_Max[OF assms(1), of owner n] show ?thesis by (simp add: newVer_of_def)
next
  case False
  then obtain v where v: "v \<in> existing_versions s owner n" by auto
  with assms(1) have "1 \<le> v" by (auto simp: existing_versions_def)
  moreover from v finite_existing have "v \<le> Max (existing_versions s owner n)" by simp
  ultimately have "0 < Max (existing_versions s owner n)" by linarith
  with False HighestDBVersion_Max[OF assms(1), of owner n] assms(2) show ?thesis
    by (simp add: newVer_of_next)
qed

text \<open>
  When the lookup of the highest version returns no error, the stored versions are
  positive and the highest of them is below the largest \<open>int\<close>, an upload that adds a
  row gives it the version 1 when no version of that owner and name is stored, and the
  highest stored version plus 1 otherwise; the rows stored before are all still there,
  followed by the new one.
\<close>

lemma next_version_after_lookup:
  assumes "uploadDataHandler env s r = Some (resp, effs)" "AddDatabase row \<in> set effs"
    and "HighestDBVersion_err env (md_owner row) (md_dbname row) = None"
    and "\<forall>old \<in> set (versions s). 1 \<le> md_version old"
    and "HighestDBVersion s (md_owner row) (md_dbname row) < MaxInt64"
  shows "md_version row
           = (if existing_versions s (md_owner row) (md_dbname row) = {} then 1
              else Max (existing_versions s (md_owner row) (md_dbname row)) + 1)
     \<and> (\<forall>v \<in> existing_versions s (md_owner row) (md_dbname row). v < md_version row)
     \<and> up_session r = Some (md_owner row)
     \<and> versions (foldl apply_effect s effs) = versions s @ [row]"
proof -
  note sh = in_shape[OF assms(1,2)]
  from assms(3) have look: "lookup_highVer env s (md_owner row) (md_dbname row)
      = HighestDBVersion s (md_owner row) (md_dbname row)"
    by (simp add: lookup_highVer_def)
  have v: "md_version row
           = (if existing_versions s (md_owner row) (md_dbname row) = {} then 1
              else Max (existing_versions s (md_owner row) (md_dbname row)) + 1)"
    using sh(3) look newVer_of_Highest[OF assms(4,5)] by simp
  have lt: "\<forall>v \<in> existing_versions s (md_owner row) (md_dbname row). v < md_version row"
  proof
    fix x assume x: "x \<in> existing_versions s (md_owner row) (md_dbname row)"
    then have "x \<le> Max (existing_versions s (md_owner row) (md_dbname row))"
      using finite_existing by simp
    with x v show "x < md_version row" by auto
  qed
  from sh(1) have app: "versions (foldl apply_effect s effs) = versions s @ [row]" by auto
  from v lt sh(2) app show ?thesis by blast
qed

text \<open>
  C6. The handler does not look at the error the lookup of the highest version returns:
  the version it assigns is made from the number that comes with the error, whatever
  versions are stored. Carol has version 1 of \<open>test.db\<close>; she uploads the file again
  while the lookup fails, and every later call succeeds. The row the handler adds has
  the version made from the number returned, which is 1 when that number is 0 or -1: the
  store then holds two rows with the version 1 for that owner and name.
\<close>

theorem lookup_error_is_ignored:
  "existing_versions example_store1 ''carol'' ''test.db'' = {1}
   \<and> uploadDataHandler
        (example_env\<lparr>HighestDBVersion_err := (\<lambda>_ _. Some returned),
                      RandomString := (\<lambda>_. ''cccccccc'')\<rparr>)
        example_store1 example_upload
      = Some (UploadSucceeded ''carol'',
              [StoreMinioObject ''bkt'' ''cccccccc.db'' [0x53, 0x51],
               AddDatabase ((example_row (newVer_of returned))\<lparr>md_minioid := ''cccccccc.db''\<rparr>)])
   \<and> newVer_of 0 = 1 \<and> newVer_of (- 1) = 1
   \<and> map md_version (versions (foldl apply_effect example_store1
        [StoreMinioObject ''bkt'' ''cccccccc.db'' [0x53, 0x51],
         AddDatabase ((example_row (newVer_of 0))\<lparr>md_minioid := ''cccccccc.db''\<rparr>)]))
      = [1, 1]"
proof -
  have ex: "existing_versions example_store1 ''carol'' ''test.db'' = {1}"
    by (auto simp: existing_versions_def example_store1_def empty_stores_def example_row_def)
  have up: "uploadDataHandler
        (example_env\<lparr>HighestDBVersion_err := (\<lambda>_ _. Some returned),
                      RandomString := (\<lambda>_. ''cccccccc'')\<rparr>)
        example_store1 example_upload
      = Some (UploadSucceeded ''carol'',
              [StoreMinioObject ''bkt'' ''cccccccc.db'' [0x53, 0x51],
               AddDatabase ((example_row (newVer_of returned))\<lparr>md_minioid := ''cccccccc.db''\<rparr>)])"
    by (simp add: uploadDataHandler_def upload_commit_def example_env_def example_upload_def
        example_row_def ParseBool_def example_conn_def Let_def pick_minioID.simps
        lookup_highVer_def)
  have one: "newVer_of 0 = 1" "newVer_of (- 1) = 1" by (simp_all add: newVer_of_def)
  have vs: "map md_version (versions (foldl apply_effect example_store1
        [StoreMinioObject ''bkt'' ''cccccccc.db'' [0x53, 0x51],
         AddDatabase ((example_row (newVer_of 0))\<lparr>md_minioid := ''cccccccc.db''\<rparr>)]))
      = [1, 1]"
    by (simp add: example_store1_def empty_stores_def example_row_def one)
  from ex up one vs show ?thesis by simp
qed

end
